theory Spec2Isabelle
  imports Complex_Main "HOL-Library.Sublist" "HOL-Library.AList"
    "HOL-Library.Char_ord" "HOL-Library.List_Lexorder"
begin

chapter \<open>The model\<close>

section \<open>Python values shared by the models\<close>

text \<open>
  The exceptions raised by the modelled functions. Each constructor carries the message
  (or the offending key) the source builds.
\<close>

datatype error =
    KeyError string
  | ValueError string
  | ImportError string
  | IndexError
  | TypeError string
  | SyntaxError string
  | StandardError string
  | DatabaseLookupError string
  | GenericException string

text \<open>
  A Python dictionary is an association list with distinct keys, in insertion order.
  \<open>d[k] = v\<close> is \<^const>\<open>AList.update\<close>: it replaces the value in place when the key is
  present and appends the pair otherwise.
\<close>

type_synonym 'v dict = "(string \<times> 'v) list"

definition keys :: "(string \<times> 'v) list \<Rightarrow> string list" where
  "keys d = map fst d"

definition dict_values :: "(string \<times> 'v) list \<Rightarrow> 'v list" where
  "dict_values d = map snd d"

text \<open>\<open>sep.join(xs)\<close>\<close>

fun join :: "string \<Rightarrow> string list \<Rightarrow> string" where
  "join sep [] = []"
| "join sep [x] = x"
| "join sep (x # y # ys) = x @ sep @ join sep (y # ys)"

section \<open>Parameter resolution (\<open>pcigale/sed/modules/common.py\<close>,
  \<open>pcigale/analysis_modules/__init__.py\<close>)\<close>

text \<open>
  A parameter schema maps each parameter name to the tuple
  (variable type, description, default value); \<open>None\<close> as third component means that the
  parameter has no default.
\<close>

type_synonym 'v schema = "(string \<times> (string \<times> string \<times> 'v option)) list"

text \<open>
  The first loop of \<open>complete_parameters\<close>: for every key of the schema, in order, a key
  that is absent from the given dictionary and has a default is added with that default.
  The given dictionary is the one being updated.
\<close>

fun fill_defaults :: "'v schema \<Rightarrow> 'v dict \<Rightarrow> 'v dict" where
  "fill_defaults [] given_parameters = given_parameters"
| "fill_defaults ((key, entry) # rest) given_parameters =
     fill_defaults rest
       (case snd (snd entry) of
          None \<Rightarrow> given_parameters
        | Some dflt \<Rightarrow>
            if key \<notin> set (keys given_parameters)
            then AList.update key dflt given_parameters
            else given_parameters)"

text \<open>
  The two set differences of the source. A Python set has no specified iteration order;
  the model lists the keys in the order of the dictionary they come from.
\<close>

definition missing_parameters :: "'v dict \<Rightarrow> 'v schema \<Rightarrow> string list" where
  "missing_parameters given_parameters parameter_list =
     filter (\<lambda>k. k \<notin> set (keys given_parameters)) (keys parameter_list)"

definition unexpected_parameters :: "'v dict \<Rightarrow> 'v schema \<Rightarrow> string list" where
  "unexpected_parameters given_parameters parameter_list =
     filter (\<lambda>k. k \<notin> set (keys parameter_list)) (keys given_parameters)"

text \<open>
  The message of the \<open>KeyError\<close>. The two copies of the check differ only in the text that
  closes the list of missing parameters (\<open>". "\<close> in \<open>complete_parameters\<close>, \<open>"."\<close> in
  \<open>AnalysisModule.process\<close>), which is the argument \<open>stop\<close>.
\<close>

definition mismatch_message :: "string \<Rightarrow> string list \<Rightarrow> string list \<Rightarrow> string" where
  "mismatch_message stop missing unexpected =
     ''The parameters passed are different from the expected one.''
     @ (if missing \<noteq> [] then ''Missing parameters: '' @ join '', '' missing @ stop else [])
     @ (if unexpected \<noteq> []
        then ''Unexpected parameters: '' @ join '', '' unexpected @ ''.'' else [])"

definition check_parameters :: "string \<Rightarrow> 'v dict \<Rightarrow> 'v schema \<Rightarrow> error + 'v dict" where
  "check_parameters stop given_parameters parameter_list =
     (if set (keys given_parameters) \<noteq> set (keys parameter_list)
      then Inl (KeyError (mismatch_message stop
                  (missing_parameters given_parameters parameter_list)
                  (unexpected_parameters given_parameters parameter_list)))
      else Inr given_parameters)"

definition complete_parameters :: "'v dict \<Rightarrow> 'v schema \<Rightarrow> error + 'v dict" where
  "complete_parameters given_parameters parameter_list =
     check_parameters ''. '' (fill_defaults parameter_list given_parameters) parameter_list"

text \<open>
  \<open>AnalysisModule.process\<close> resolves its \<open>parameters\<close> argument against the module's
  \<open>parameter_list\<close> with its own copy of the same code and hands the resolved dictionary
  to \<open>_process\<close>, which is the argument \<open>process'\<close> here.
\<close>

definition AnalysisModule_process ::
  "'v schema \<Rightarrow> ('v dict \<Rightarrow> error + 'r) \<Rightarrow> 'v dict \<Rightarrow> error + 'r" where
  "AnalysisModule_process parameter_list process' parameters =
     (case check_parameters ''.'' (fill_defaults parameter_list parameters) parameter_list of
        Inl e \<Rightarrow> Inl e
      | Inr resolved \<Rightarrow> process' resolved)"

text \<open>
  The schema and the three caller inputs of the specification's example:
  \<open>{a: default 1, b: no default}\<close> with \<open>{b: 5}\<close>, \<open>{a: 2, b: 5, c: 9}\<close> and \<open>{a: 2}\<close>.
\<close>

definition example_schema :: "int schema" where
  "example_schema = [(''a'', (''int'', ''first'', Some 1)), (''b'', (''int'', ''second'', None))]"

section \<open>Module lookup (\<open>pcigale/sed/modules/common.py\<close>)\<close>

text \<open>
  \<open>s.split(sep)\<close> for a one-character separator: the text is cut at every occurrence of
  the separator; the result is never empty.
\<close>

fun split :: "char \<Rightarrow> string \<Rightarrow> string list" where
  "split sep [] = [[]]"
| "split sep (c # cs) =
     (if c = sep then [] # split sep cs
      else (case split sep cs of
              [] \<Rightarrow> [[c]]
            | w # ws \<Rightarrow> (c # w) # ws))"

text \<open>
  What \<open>get_module\<close> needs of a module class: the class attribute \<open>parameter_list\<close> and
  the hook \<open>_init_code\<close>, which does nothing in \<open>SEDCreationModule\<close> and may raise in a
  subclass (\<open>None\<close> means that it returned).
\<close>

record 'v module_class =
  cls_parameter_list :: "'v schema"
  cls_init_code :: "'v dict \<Rightarrow> error option"

text \<open>
  An instance carries the name given to the constructor and, unless it was built blank,
  the resolved parameters.
\<close>

record 'v module_instance =
  inst_name :: "string option"
  inst_parameters :: "'v dict option"

text \<open>\<open>SEDCreationModule.__init__(self, name=None, blank=False, **kwargs)\<close>\<close>

definition SEDCreationModule_init ::
  "'v module_class \<Rightarrow> string option \<Rightarrow> bool \<Rightarrow> 'v dict \<Rightarrow> error + 'v module_instance" where
  "SEDCreationModule_init cls name blank kwargs =
     (if \<not> blank then
        (case complete_parameters kwargs (cls_parameter_list cls) of
           Inl e \<Rightarrow> Inl e
         | Inr parameters \<Rightarrow>
             (case cls_init_code cls parameters of
                Some e \<Rightarrow> Inl e
              | None \<Rightarrow> Inr \<lparr>inst_name = name, inst_parameters = Some parameters\<rparr>))
      else Inr \<lparr>inst_name = name, inst_parameters = None\<rparr>)"

text \<open>
  The call \<open>module.Module(name=name, **kwargs)\<close> for a module class that inherits the
  constructor of \<open>SEDCreationModule\<close>. The keywords \<open>name\<close> and \<open>blank\<close> are parameters of
  the constructor: a \<open>blank\<close> among the forwarded keywords is bound to that parameter and
  does not reach the module parameters, and a \<open>name\<close> or \<open>self\<close> among them collides with
  an argument already given, which is a \<open>TypeError\<close>. The argument \<open>truthy\<close> is the truth
  value of a Python value, as \<open>if not blank\<close> takes it.
\<close>

definition call_Module ::
  "('v \<Rightarrow> bool) \<Rightarrow> 'v module_class \<Rightarrow> string \<Rightarrow> 'v dict \<Rightarrow> error + 'v module_instance" where
  "call_Module truthy cls name kwargs =
     (if ''name'' \<in> set (keys kwargs) \<or> ''self'' \<in> set (keys kwargs)
      then Inl (TypeError ''__init__() got multiple values for keyword argument'')
      else SEDCreationModule_init cls (Some name)
             (case map_of kwargs ''blank'' of None \<Rightarrow> False | Some v \<Rightarrow> truthy v)
             (filter (\<lambda>(k, v). k \<noteq> ''blank'') kwargs))"

text \<open>
  \<open>get_module(name, **kwargs)\<close>. The function builds the text of an import statement
  from the part of the name before the first dot and executes it. What executing a
  statement does is the argument \<open>exec_import\<close>: it yields the class \<open>module.Module\<close> of
  the module the statement binds to \<open>module\<close>, or the exception raised (\<open>ImportError\<close> when
  the package has no such module, \<open>SyntaxError\<close> when the text is not a statement of the
  language). The result is the value or the exception of the call together with the
  lines it printed. The \<open>except ImportError\<close> clause covers the whole \<open>try\<close> block, so an
  \<open>ImportError\<close> raised while the instance is built is reported in the same way; any
  other exception leaves the function without a printed line. A keyword \<open>name\<close> collides
  with the function's own parameter before its body runs.
\<close>

definition get_module ::
  "(string \<Rightarrow> error + 'v module_class) \<Rightarrow> ('v \<Rightarrow> bool) \<Rightarrow> string \<Rightarrow> 'v dict
     \<Rightarrow> (error + 'v module_instance) \<times> string list" where
  "get_module exec_import truthy name kwargs =
     (if ''name'' \<in> set (keys kwargs)
      then (Inl (TypeError ''get_module() got multiple values for keyword argument''), [])
      else
        (case split CHR ''.'' name of
           [] \<Rightarrow> (Inl IndexError, [])
         | module_name # _ \<Rightarrow>
             (case (case exec_import (''from . import '' @ module_name @ '' as module'') of
                      Inl e \<Rightarrow> Inl e
                    | Inr cls \<Rightarrow> call_Module truthy cls name kwargs) of
                Inl (ImportError m) \<Rightarrow>
                  (Inl (ImportError m), [''Module '' @ module_name @ '' does not exists!''])
              | r \<Rightarrow> (r, []))))"

text \<open>Whether an exception is an \<open>ImportError\<close>.\<close>

fun is_ImportError :: "error \<Rightarrow> bool" where
  "is_ImportError (ImportError _) = True"
| "is_ImportError _ = False"

text \<open>The module \<open>dh2002\<close>, which takes the parameter \<open>alpha\<close>.\<close>

definition dh2002_class :: "int module_class" where
  "dh2002_class =
     \<lparr>cls_parameter_list = [(''alpha'', (''float'', ''slope'', Some 2))],
      cls_init_code = (\<lambda>_. None)\<rparr>"

text \<open>
  What the interpreter does with the three import statements of the examples in a package
  whose only module is \<open>dh2002\<close>: it imports \<open>dh2002\<close>, it finds no module \<open>nosuch\<close>, and it
  rejects \<open>my-module\<close>, which is not a name of the language. The last case of the definition
  stands for the statements the examples do not use and describes nothing.
\<close>

definition example_exec :: "string \<Rightarrow> error + int module_class" where
  "example_exec statement =
     (if statement = ''from . import dh2002 as module'' then Inr dh2002_class
      else if statement = ''from . import nosuch as module''
        then Inl (ImportError ''cannot import name nosuch'')
      else if statement = ''from . import my-module as module''
        then Inl (SyntaxError ''invalid syntax'')
      else Inl (GenericException ''not a statement of the examples''))"

text \<open>The truth value of an integer.\<close>

definition int_truthy :: "int \<Rightarrow> bool" where
  "int_truthy v = (v \<noteq> 0)"

section \<open>Arrays (\<open>numpy\<close>) as the analysis modules use them\<close>

text \<open>
  Arrays are mutable objects that caller and callee may share, so they live in a store: a
  reference is an index into the list of all arrays allocated so far, and a newly created
  array is appended. Array elements are real numbers; the rounding of floating-point
  arithmetic is not modelled.
\<close>

type_synonym ref = nat
type_synonym heap = "real list list"

definition alloc :: "heap \<Rightarrow> real list \<Rightarrow> ref \<times> heap" where
  "alloc h a = (length h, h @ [a])"

text \<open>\<open>np.copy(a)\<close>: a new array with the elements of \<open>a\<close>.\<close>

definition np_copy :: "heap \<Rightarrow> ref \<Rightarrow> ref \<times> heap" where
  "np_copy h a = alloc h (h ! a)"

text \<open>
  \<open>a[m]\<close> for a boolean array \<open>m\<close>: the elements of \<open>a\<close> at the positions where the
  selection is true; \<open>numpy\<close> raises \<open>IndexError\<close> when the selection has another length than \<open>a\<close>.
\<close>

definition np_getmask :: "real list \<Rightarrow> bool list \<Rightarrow> error + real list" where
  "np_getmask a msk =
     (if length msk \<noteq> length a then Inl IndexError
      else Inr (map fst (filter snd (zip a msk))))"

text \<open>
  \<open>a[m] = values\<close>: the positions of \<open>a\<close> where the selection is true receive the values in
  order; a single value is broadcast to all of them; any other number of values than the
  number of true positions is a \<open>ValueError\<close>.
\<close>

fun masked_assign :: "real list \<Rightarrow> bool list \<Rightarrow> real list \<Rightarrow> real list" where
  "masked_assign (x # xs) (True # ms) (v # vs) = v # masked_assign xs ms vs"
| "masked_assign (x # xs) (False # ms) vs = x # masked_assign xs ms vs"
| "masked_assign xs ms vs = xs"

definition np_setmask :: "real list \<Rightarrow> bool list \<Rightarrow> real list \<Rightarrow> error + real list" where
  "np_setmask a msk vs =
     (if length msk \<noteq> length a then Inl IndexError
      else if length vs = length (filter id msk) then Inr (masked_assign a msk vs)
      else if length vs = 1
        then Inr (masked_assign a msk (replicate (length (filter id msk)) (hd vs)))
      else Inl (ValueError ''NumPy boolean array indexing assignment cannot assign''))"

text \<open>
  \<open>a + b\<close> on arrays: elementwise for equal lengths, an array of one element is broadcast,
  and other lengths do not combine.
\<close>

definition np_add :: "real list \<Rightarrow> real list \<Rightarrow> error + real list" where
  "np_add a b =
     (if length a = length b then Inr (map2 (+) a b)
      else if length a = 1 then Inr (map (\<lambda>y. hd a + y) b)
      else if length b = 1 then Inr (map (\<lambda>x. x + hd b) a)
      else Inl (ValueError ''operands could not be broadcast together''))"

section \<open>Error adjustment (\<open>pcigale/analysis_modules/__init__.py\<close>)\<close>

text \<open>
  The statement \<open>error[error < tolerance] = (default_error * flux[error < tolerance])\<close> on
  the elements of the two arrays: the right-hand side is evaluated first, then the
  selection on the left, then the assignment.
\<close>

definition replace_below_tolerance ::
  "real list \<Rightarrow> real list \<Rightarrow> real \<Rightarrow> real \<Rightarrow> error + real list" where
  "replace_below_tolerance flux error tolerance default_error =
     (case np_getmask flux (map (\<lambda>e. e < tolerance) error) of
        Inl e \<Rightarrow> Inl e
      | Inr selected \<Rightarrow>
          np_setmask error (map (\<lambda>e. e < tolerance) error)
            (map (\<lambda>f. default_error * f) selected))"

text \<open>\<open>np.sqrt(np.square(error) + np.square(flux * systematic_deviation))\<close>\<close>

definition add_systematic :: "real list \<Rightarrow> real list \<Rightarrow> real \<Rightarrow> error + real list" where
  "add_systematic flux error systematic_deviation =
     (case np_add (map (\<lambda>e. e\<^sup>2) error)
             (map (\<lambda>f. (f * systematic_deviation)\<^sup>2) flux) of
        Inl e \<Rightarrow> Inl e
      | Inr summed \<Rightarrow> Inr (map sqrt summed))"

text \<open>
  \<open>adjust_errors(flux, error, tolerance, default_error, systematic_deviation)\<close>. The
  arguments \<open>flux\<close> and \<open>error\<close> are references to the caller's arrays. The result is the
  returned reference or the exception, together with the store after the call. The local
  variable \<open>error\<close> is rebound twice: to the copy (\<open>error1\<close>), which the masked assignment
  updates in place, and to the array that \<open>np.sqrt\<close> creates (\<open>error2\<close>). The arrays built
  for the selection and for the right-hand sides are temporaries that nothing refers to
  after the statement, so they are values here.
\<close>

definition adjust_errors ::
  "heap \<Rightarrow> ref \<Rightarrow> ref \<Rightarrow> real \<Rightarrow> real \<Rightarrow> real \<Rightarrow> (error + ref) \<times> heap" where
  "adjust_errors h flux error tolerance default_error systematic_deviation =
     (if length (h ! flux) \<noteq> length (h ! error)
      then (Inl (ValueError ''The flux and error arrays must have the same length.''), h)
      else
        (case np_copy h error of (error1, h1) \<Rightarrow>
           (case replace_below_tolerance (h1 ! flux) (h1 ! error1)
                   tolerance default_error of
              Inl e \<Rightarrow> (Inl e, h1)
            | Inr updated \<Rightarrow>
                (case add_systematic (h1[error1 := updated] ! flux)
                        (h1[error1 := updated] ! error1) systematic_deviation of
                   Inl e \<Rightarrow> (Inl e, h1[error1 := updated])
                 | Inr result \<Rightarrow>
                     (case alloc (h1[error1 := updated]) result of
                        (error2, h2) \<Rightarrow> (Inr error2, h2))))))"

text \<open>A store with a flux array and an error array of the caller, at references 0 and 1.\<close>

definition example_heap :: heap where
  "example_heap = [[10, 20], [0, 3]]"

text \<open>A store whose two arrays have different lengths.\<close>

definition ragged_heap :: heap where
  "ragged_heap = [[10, 20, 30], [0, 3]]"

section \<open>Observation tables (\<open>astropy.table.Table\<close>)\<close>

text \<open>
  A table is the list of its columns in order, each a name and a reference to the array
  holding the column's data.
\<close>

type_synonym table = "(string \<times> ref) list"

definition colnames :: "table \<Rightarrow> string list" where
  "colnames t = map fst t"

text \<open>\<open>len(obs_table)\<close>: the number of rows.\<close>

definition table_len :: "heap \<Rightarrow> table \<Rightarrow> nat" where
  "table_len h t = (case t of [] \<Rightarrow> 0 | (_, c) # _ \<Rightarrow> length (h ! c))"

text \<open>\<open>obs_table[name]\<close> raises \<open>KeyError\<close> when the table has no column of that name.\<close>

definition table_getitem :: "table \<Rightarrow> string \<Rightarrow> error + ref" where
  "table_getitem t name =
     (case map_of t name of None \<Rightarrow> Inl (KeyError name) | Some c \<Rightarrow> Inr c)"

text \<open>
  \<open>obs_table[name] = values\<close>: an existing column receives the values (a single value is
  broadcast), a new column is appended; values of another length are a \<open>ValueError\<close>.
\<close>

definition table_setitem :: "heap \<Rightarrow> table \<Rightarrow> string \<Rightarrow> real list \<Rightarrow> error + heap \<times> table" where
  "table_setitem h t name vs =
     (case map_of t name of
        Some c \<Rightarrow>
          if length vs = length (h ! c) then Inr (h[c := vs], t)
          else if length vs = 1 then Inr (h[c := replicate (length (h ! c)) (hd vs)], t)
          else Inl (ValueError ''could not broadcast input array'')
      | None \<Rightarrow>
          if t \<noteq> [] \<and> length vs \<noteq> table_len h t
          then Inl (ValueError ''Inconsistent data column lengths'')
          else (case alloc h vs of (c, h') \<Rightarrow> Inr (h', t @ [(name, c)])))"

text \<open>\<open>obs_table.colnames.index(name)\<close>\<close>

definition colnames_index :: "table \<Rightarrow> string \<Rightarrow> error + nat" where
  "colnames_index t name =
     (if name \<in> set (colnames t)
      then Inr (length (takeWhile (\<lambda>n. n \<noteq> name) (colnames t)))
      else Inl (ValueError (name @ '' is not in list'')))"

text \<open>
  A column object, as the constructor \<open>Column\<close> returns it and before it belongs to a
  table: its name and its data.
\<close>

type_synonym column = "string \<times> real list"

text \<open>
  \<open>obs_table.add_column(col, index=None)\<close>: the column is inserted before the column at
  position \<open>index\<close>, and after the last column when the call gives no index.
\<close>

definition add_column ::
  "heap \<Rightarrow> table \<Rightarrow> column \<Rightarrow> nat option \<Rightarrow> error + heap \<times> table" where
  "add_column h t col index =
     (case col of (name, vs) \<Rightarrow>
        if name \<in> set (colnames t)
          then Inl (ValueError (''Duplicate column names: '' @ name))
        else if t \<noteq> [] \<and> length vs \<noteq> table_len h t
          then Inl (ValueError ''Inconsistent data column lengths'')
        else (case alloc h vs of (c, h') \<Rightarrow>
                (case index of
                   None \<Rightarrow> Inr (h', t @ [(name, c)])
                 | Some i \<Rightarrow> Inr (h', take i t @ [(name, c)] @ drop i t))))"

section \<open>Completing the observation table
  (\<open>pcigale/analysis_modules/__init__.py\<close>)\<close>

text \<open>
  The body of the loop of \<open>complete_obs_table\<close> for the filter \<open>name\<close>. When the error
  column is neither used nor in the table, the code calls the constructor
  \<open>Column(name=name_err, data=np.zeros(len(obs_table), dtype=float),
  index=obs_table.colnames.index(name)+1)\<close> and hands the column to \<open>add_column\<close> without
  an index: the position computed from the filter's column is an argument of the
  constructor, not of \<open>add_column\<close>. The constructor belongs to the table library; it is
  the argument \<open>Column\<close>, which takes the three keyword arguments in the order of the call
  and yields the column or the exception of the constructor.
\<close>

definition complete_filter ::
  "(string \<Rightarrow> real list \<Rightarrow> nat \<Rightarrow> error + column) \<Rightarrow> heap \<Rightarrow> table \<Rightarrow> string list \<Rightarrow> string
     \<Rightarrow> real \<Rightarrow> real \<Rightarrow> real \<Rightarrow> error + heap \<times> table" where
  "complete_filter Column h obs_table used_columns name tolerance default_error
       systematic_deviation =
     (if name \<notin> set (colnames obs_table)
      then Inl (StandardError (''The filter <'' @ name
                  @ ''> (at least) is not present in the observation table.''))
      else
        (case (if name @ ''_err'' \<notin> set used_columns
               then (if name @ ''_err'' \<notin> set (colnames obs_table)
                     then (case colnames_index obs_table name of
                             Inl e \<Rightarrow> Inl e
                           | Inr i \<Rightarrow>
                               (case Column (name @ ''_err'')
                                       (replicate (table_len h obs_table) 0) (i + 1) of
                                  Inl e \<Rightarrow> Inl e
                                | Inr col \<Rightarrow> add_column h obs_table col None))
                     else table_setitem h obs_table (name @ ''_err'')
                            (replicate (table_len h obs_table) 0))
               else Inr (h, obs_table)) of
           Inl e \<Rightarrow> Inl e
         | Inr (h1, t1) \<Rightarrow>
             (case table_getitem t1 name of
                Inl e \<Rightarrow> Inl e
              | Inr flux \<Rightarrow>
                  (case table_getitem t1 (name @ ''_err'') of
                     Inl e \<Rightarrow> Inl e
                   | Inr error \<Rightarrow>
                       (case adjust_errors h1 flux error tolerance default_error
                               systematic_deviation of
                          (Inl e, h2) \<Rightarrow> Inl e
                        | (Inr adjusted, h2) \<Rightarrow>
                            table_setitem h2 t1 (name @ ''_err'') (h2 ! adjusted))))))"

text \<open>
  \<open>complete_obs_table(obs_table, used_columns, filter_list, tolerance, default_error,
  systematic_deviation)\<close>: the loop over \<open>filter_list\<close>; the first exception ends it.
\<close>

fun complete_obs_table ::
  "(string \<Rightarrow> real list \<Rightarrow> nat \<Rightarrow> error + column) \<Rightarrow> heap \<Rightarrow> table \<Rightarrow> string list
     \<Rightarrow> string list \<Rightarrow> real \<Rightarrow> real \<Rightarrow> real \<Rightarrow> error + heap \<times> table" where
  "complete_obs_table Column h obs_table used_columns [] tolerance default_error
       systematic_deviation = Inr (h, obs_table)"
| "complete_obs_table Column h obs_table used_columns (name # filter_list) tolerance
       default_error systematic_deviation =
     (case complete_filter Column h obs_table used_columns name tolerance default_error
             systematic_deviation of
        Inl e \<Rightarrow> Inl e
      | Inr (h', obs_table') \<Rightarrow>
          complete_obs_table Column h' obs_table' used_columns filter_list tolerance
            default_error systematic_deviation)"

text \<open>
  An observation table with the single column \<open>f\<close>, whose data is the first array of
  \<^const>\<open>example_heap\<close>.
\<close>

definition example_table :: table where
  "example_table = [(''f'', 0)]"

text \<open>
  An observation table with the columns \<open>f\<close> and \<open>g\<close>, whose data are the two arrays of
  \<^const>\<open>example_heap\<close>.
\<close>

definition two_column_table :: table where
  "two_column_table = [(''f'', 0), (''g'', 1)]"

text \<open>
  Two constructors for the examples: one builds the column from the name and the data and
  does nothing with the index, the other has no parameter \<open>index\<close> and answers the keyword
  with a \<open>TypeError\<close>.
\<close>

definition lenient_Column :: "string \<Rightarrow> real list \<Rightarrow> nat \<Rightarrow> error + column" where
  "lenient_Column name vs index = Inr (name, vs)"

definition strict_Column :: "string \<Rightarrow> real list \<Rightarrow> nat \<Rightarrow> error + column" where
  "strict_Column name vs index =
     Inl (TypeError ''__init__() got an unexpected keyword argument index'')"

section \<open>The model data providers (\<open>pcigale/data/__init__.py\<close>)\<close>

subsection \<open>The SQL database\<close>

text \<open>
  The rows of the tables \<open>THEMIS_models\<close> and \<open>filters\<close>. The type \<open>'k\<close> is the type of the
  model coordinates and \<open>'d\<close> the type of the stored arrays.
\<close>

record ('k, 'd) themis =
  t_qhac :: 'k
  t_umin :: 'k
  t_umax :: 'k
  t_alpha :: 'k
  t_wave :: 'd
  t_lumin :: 'd

record 'd filter_row =
  f_name :: string
  f_description :: string
  f_trans_table :: 'd
  f_pivot_wavelength :: 'd

text \<open>
  \<open>Database.get_themis(qhac, umin, umax, alpha)\<close>: the query takes the first row that
  passes the four filters. The argument \<open>fmt\<close> is the formatting of a coordinate in an
  f-string.
\<close>

definition get_themis ::
  "('k \<Rightarrow> string) \<Rightarrow> ('k, 'd) themis list \<Rightarrow> 'k \<Rightarrow> 'k \<Rightarrow> 'k \<Rightarrow> 'k
     \<Rightarrow> error + ('k, 'd) themis" where
  "get_themis fmt models qhac umin umax alpha =
     (case find (\<lambda>r. t_qhac r = qhac \<and> t_umin r = umin \<and> t_umax r = umax
                      \<and> t_alpha r = alpha) models of
        Some result \<Rightarrow> Inr result
      | None \<Rightarrow>
          Inl (DatabaseLookupError
                (''The THEMIS model for qhac <'' @ fmt qhac @ ''>, umin <'' @ fmt umin
                 @ ''>, umax <'' @ fmt umax @ ''>, and alpha <'' @ fmt alpha
                 @ ''> is not in the database.'')))"

text \<open>\<open>Database.get_filter(name)\<close>\<close>

definition get_filter :: "'d filter_row list \<Rightarrow> string \<Rightarrow> error + 'd filter_row" where
  "get_filter filters name =
     (case find (\<lambda>r. f_name r = name) filters of
        Some result \<Rightarrow> Inr result
      | None \<Rightarrow>
          Inl (DatabaseLookupError (''The filter <'' @ name @ ''> is not in the database'')))"

subsection \<open>The simple database\<close>

text \<open>
  A \<open>SimpleDatabase\<close> is a directory of pickle files. A file either unpickles to the
  dictionary of parameter values, or to an entry, or cannot be unpickled at all.
\<close>

datatype ('v, 'e) pickle_file =
    ParametersPickle "(string \<times> 'v list) list"
  | EntryPickle 'e
  | Garbage

type_synonym ('v, 'e) directory = "string \<rightharpoonup> ('v, 'e) pickle_file"

record 'v simple_database =
  db_name :: string
  db_writable :: bool
  db_parameters :: "(string \<times> 'v list) list"

text \<open>
  \<open>SimpleDatabase.__init__(name, writable)\<close>. The argument \<open>dir\<close> is the directory of the
  database, \<open>None\<close> when it does not exist. The result is the object or the exception and
  the directory after the call.
\<close>

definition SimpleDatabase_init ::
  "string \<Rightarrow> bool \<Rightarrow> ('v, 'e) directory option
     \<Rightarrow> (error + 'v simple_database) \<times> ('v, 'e) directory option" where
  "SimpleDatabase_init name writable dir =
     (let dir1 = (if writable \<and> dir = None
                  then Some [''parameters.pickle'' \<mapsto> ParametersPickle []]
                  else dir)
      in (case dir1 of
            None \<Rightarrow>
              (Inl (GenericException (''The database '' @ name @ '' appears corrupted. ''
                      @ ''Erase '' @ name @ '' and rebuild it.'')), dir1)
          | Some files \<Rightarrow>
              (case files ''parameters.pickle'' of
                 Some (ParametersPickle parameters) \<Rightarrow>
                   (Inr \<lparr>db_name = name, db_writable = writable,
                         db_parameters = parameters\<rparr>, dir1)
               | _ \<Rightarrow>
                   (Inl (GenericException (''The database '' @ name
                          @ '' appears corrupted. '' @ ''Erase '' @ name
                          @ '' and rebuild it.'')), dir1))))"

text \<open>
  The name of the file of an entry:
  \<open>"_".join(f"{k}={v}" for k, v in sorted(primarykeys.items()))\<close>. The keys of a dictionary
  are distinct, so the sort compares keys only.
\<close>

definition basename :: "('v \<Rightarrow> string) \<Rightarrow> (string \<times> 'v) list \<Rightarrow> string" where
  "basename fmt primarykeys =
     join ''_'' (map (\<lambda>(k, v). k @ ''='' @ fmt v) (sort_key fst primarykeys))"

text \<open>
  The text of a dictionary with string keys in an f-string, \<open>{'k': v, ...}\<close>; the argument
  \<open>repr\<close> is the \<open>repr\<close> of a value.
\<close>

definition dict_repr :: "('v \<Rightarrow> string) \<Rightarrow> (string \<times> 'v) list \<Rightarrow> string" where
  "dict_repr repr d =
     ''{'' @ join '', '' (map (\<lambda>(k, v). [CHR 0x27] @ k @ [CHR 0x27] @ '': '' @ repr v) d)
     @ ''}''"

text \<open>
  \<open>SimpleDatabase.get(**primarykeys)\<close>. Opening the file fails when it does not exist and
  \<open>pickle.load\<close> fails when it cannot be unpickled; the bare \<open>except\<close> turns both into the
  same \<open>Exception\<close>.
\<close>

definition SimpleDatabase_get ::
  "('v \<Rightarrow> string) \<Rightarrow> ('v \<Rightarrow> string) \<Rightarrow> ('v, 'e) directory \<Rightarrow> (string \<times> 'v) list
     \<Rightarrow> error + 'e" where
  "SimpleDatabase_get fmt repr files primarykeys =
     (case files (basename fmt primarykeys @ ''.pickle'') of
        Some (EntryPickle entry) \<Rightarrow> Inr entry
      | _ \<Rightarrow>
          Inl (GenericException
                (''Cannot read model '' @ dict_repr repr primarykeys
                 @ ''. Either the parameters were passed incorrectly or the ''
                 @ ''database has not been built correctly.'')))"

text \<open>Whether an exception is the lookup error of this module.\<close>

fun is_DatabaseLookupError :: "error \<Rightarrow> bool" where
  "is_DatabaseLookupError (DatabaseLookupError _) = True"
| "is_DatabaseLookupError _ = False"

text \<open>
  Two directories of a simple database of stellar populations: one without the entry for
  \<open>imf=salp\<close>, one where the file of that entry cannot be unpickled.
\<close>

definition absent_directory :: "(string, string) directory" where
  "absent_directory = [''parameters.pickle'' \<mapsto> ParametersPickle [(''imf'', [''kroupa''])],
                       ''imf=kroupa.pickle'' \<mapsto> EntryPickle ''kroupa spectra'']"

definition corrupt_directory :: "(string, string) directory" where
  "corrupt_directory = absent_directory(''imf=salp.pickle'' \<mapsto> Garbage)"

text \<open>
  A table of THEMIS models with one row and a table of filters with one row; coordinates
  are given as their text and the stored arrays are left empty.
\<close>

definition example_models :: "(string, nat list) themis list" where
  "example_models =
     [\<lparr>t_qhac = ''0.17'', t_umin = ''1.0'', t_umax = ''10.0'', t_alpha = ''2.0'',
       t_wave = [], t_lumin = []\<rparr>]"

definition example_filters :: "nat list filter_row list" where
  "example_filters =
     [\<lparr>f_name = ''FUV'', f_description = ''GALEX FUV'', f_trans_table = [],
       f_pivot_wavelength = []\<rparr>]"

section \<open>The flux-saving analysis: one grid point
  (\<open>pcigale/analysis_modules/savefluxes.py\<close>)\<close>

text \<open>
  The values a module parameter can take in a configuration: a text, a number, or a list
  of values.
\<close>

datatype pyvalue = Str string | Num real | Lst "pyvalue list"

text \<open>
  The items of a list as \<open>str.join\<close> takes them: it raises \<open>TypeError\<close> at an item that is
  not a text.
\<close>

fun str_items :: "pyvalue list \<Rightarrow> error + string list" where
  "str_items [] = Inr []"
| "str_items (Str s # items) =
     (case str_items items of Inl e \<Rightarrow> Inl e | Inr ss \<Rightarrow> Inr (s # ss))"
| "str_items (item # items) = Inl (TypeError ''sequence item: expected str instance'')"

text \<open>
  The inner loop of \<open>_worker_sed\<close> over the values of one module's parameters: a list is
  replaced by the text of its items joined with dots, and the value is appended to the row.
\<close>

fun add_values :: "pyvalue list \<Rightarrow> pyvalue list \<Rightarrow> error + pyvalue list" where
  "add_values [] row = Inr row"
| "add_values (Lst items # vals) row =
     (case str_items items of
        Inl e \<Rightarrow> Inl e
      | Inr ss \<Rightarrow> add_values vals (row @ [Str (join ''.'' ss)]))"
| "add_values (val # vals) row = add_values vals (row @ [val])"

text \<open>The outer loop, over the parameter dictionaries of the modules.\<close>

fun add_parameters :: "pyvalue dict list \<Rightarrow> pyvalue list \<Rightarrow> error + pyvalue list" where
  "add_parameters [] row = Inr row"
| "add_parameters (module_param # parameters) row =
     (case add_values (dict_values module_param) row of
        Inl e \<Rightarrow> Inl e
      | Inr row' \<Rightarrow> add_parameters parameters row')"

text \<open>
  The list \<open>[sed.compute_fnu(filter_.trans_table, filter_.effective_wavelength) for filter_
  in filters]\<close>: the fluxes are computed filter by filter, and the first exception ends
  the computation.
\<close>

fun compute_fluxes :: "('sed \<Rightarrow> 'f \<Rightarrow> error + real) \<Rightarrow> 'sed \<Rightarrow> 'f list \<Rightarrow> error + pyvalue list" where
  "compute_fluxes compute_fnu sed [] = Inr []"
| "compute_fluxes compute_fnu sed (flt # filters) =
     (case compute_fnu sed flt of
        Inl e \<Rightarrow> Inl e
      | Inr flux \<Rightarrow>
          (case compute_fluxes compute_fnu sed filters of
             Inl e \<Rightarrow> Inl e
           | Inr fluxes \<Rightarrow> Inr (Num flux # fluxes)))"

text \<open>
  The statements of \<open>_worker_sed\<close> that a run goes through, in the order it reaches them:
  the call of \<open>get_sed\<close>, the call of \<open>partial_clear_cache\<close> with its argument, the loop
  that puts the parameter values into the row, the computation of the fluxes, and the
  \<open>return\<close> of the row.
\<close>

datatype 'c event = Get_sed | Partial_clear_cache 'c | Row_parameters | Row_fluxes | Return_row

text \<open>
  \<open>_worker_sed(warehouse, filters, modules, parameters, changed)\<close>. The class
  \<open>SedWarehouse\<close> and the class of the SED are not among the sources, so the three
  operations the function calls are arguments: \<open>get_sed\<close> yields the SED or an exception,
  and the warehouse after the call; \<open>partial_clear_cache\<close> yields the exception, if it
  raises one, and the warehouse after the call; \<open>compute_fnu\<close> yields the flux of a SED in
  a filter or an exception. The result is the row or the exception, the warehouse after
  the call, and the statements the run went through.
\<close>

definition worker_sed ::
  "('w \<Rightarrow> string list \<Rightarrow> pyvalue dict list \<Rightarrow> (error + 'sed) \<times> 'w)
     \<Rightarrow> ('w \<Rightarrow> 'c \<Rightarrow> error option \<times> 'w) \<Rightarrow> ('sed \<Rightarrow> 'f \<Rightarrow> error + real)
     \<Rightarrow> 'w \<Rightarrow> 'f list \<Rightarrow> string list \<Rightarrow> pyvalue dict list \<Rightarrow> 'c
     \<Rightarrow> (error + pyvalue list) \<times> 'w \<times> 'c event list" where
  "worker_sed get_sed partial_clear_cache compute_fnu warehouse filters modules parameters
       changed =
     (case get_sed warehouse modules parameters of
        (Inl e, w1) \<Rightarrow> (Inl e, w1, [Get_sed])
      | (Inr sed, w1) \<Rightarrow>
          (case partial_clear_cache w1 changed of
             (Some e, w2) \<Rightarrow> (Inl e, w2, [Get_sed, Partial_clear_cache changed])
           | (None, w2) \<Rightarrow>
               (case add_parameters parameters [] of
                  Inl e \<Rightarrow>
                    (Inl e, w2, [Get_sed, Partial_clear_cache changed, Row_parameters])
                | Inr row \<Rightarrow>
                    (case compute_fluxes compute_fnu sed filters of
                       Inl e \<Rightarrow>
                         (Inl e, w2,
                          [Get_sed, Partial_clear_cache changed, Row_parameters, Row_fluxes])
                     | Inr fluxes \<Rightarrow>
                         (Inr (row @ fluxes), w2,
                          [Get_sed, Partial_clear_cache changed, Row_parameters, Row_fluxes,
                           Return_row])))))"




text \<open>
  The names of the filters, \<open>[name for name in column_list if not name.endswith('_err')]\<close>.
\<close>

definition filter_names :: "string list \<Rightarrow> string list" where
  "filter_names column_list = filter (\<lambda>name. \<not> suffix ''_err'' name) column_list"

text \<open>
  The loops of \<open>SaveFluxes.process\<close> that build the column names: for every module and
  its parameter dictionary, the module name and each key joined with a dot.
\<close>

fun add_keys :: "string \<Rightarrow> string list \<Rightarrow> string list \<Rightarrow> string list" where
  "add_keys module_name [] out_columns = out_columns"
| "add_keys module_name (key # rest) out_columns =
     add_keys module_name rest (out_columns @ [join ''.'' [module_name, key]])"

fun add_module_columns :: "(string \<times> pyvalue dict) list \<Rightarrow> string list \<Rightarrow> string list" where
  "add_module_columns [] out_columns = out_columns"
| "add_module_columns (module_param_list # rest) out_columns =
     add_module_columns rest
       (add_keys (fst module_param_list) (keys (snd module_param_list)) out_columns)"

text \<open>
  The column names of the output table; \<open>creation_modules_params[0]\<close> raises \<open>IndexError\<close>
  on an empty grid.
\<close>

definition out_columns ::
  "string list \<Rightarrow> pyvalue dict list list \<Rightarrow> string list \<Rightarrow> error + string list" where
  "out_columns creation_modules creation_modules_params column_list =
     (case creation_modules_params of
        [] \<Rightarrow> Inl IndexError
      | first # _ \<Rightarrow>
          Inr (add_module_columns (zip creation_modules first) []
               @ filter_names column_list))"

text \<open>
  What the row of a grid point is said to hold for a parameter value: the value, a list
  given as the text of its items joined with dots.
\<close>

fun joined :: "pyvalue \<Rightarrow> pyvalue" where
  "joined (Lst items) = Str (join ''.'' (map (\<lambda>item. case item of Str s \<Rightarrow> s | _ \<Rightarrow> []) items))"
| "joined val = val"

text \<open>Whether a value can be put into a row: a list must consist of texts.\<close>

fun joinable :: "pyvalue \<Rightarrow> bool" where
  "joinable (Lst items) = list_all (\<lambda>item. case item of Str _ \<Rightarrow> True | _ \<Rightarrow> False) items"
| "joinable val = True"

text \<open>The parameter values of a grid point as the claim lists them.\<close>

definition parameter_values :: "pyvalue dict list \<Rightarrow> pyvalue list" where
  "parameter_values parameters =
     concat (map (\<lambda>module_param. map joined (dict_values module_param)) parameters)"

text \<open>
  A warehouse for examples that computes nothing: its state counts the calls of
  \<open>get_sed\<close>, and the SED of a pipeline is the number of its modules.
\<close>

definition counting_get_sed ::
  "nat \<Rightarrow> string list \<Rightarrow> pyvalue dict list \<Rightarrow> (error + nat) \<times> nat" where
  "counting_get_sed w modules parameters = (Inr (length modules), Suc w)"

definition counting_clear :: "nat \<Rightarrow> nat \<Rightarrow> error option \<times> nat" where
  "counting_clear w changed = (None, w)"

text \<open>A flux for examples: the SED plus the length of the filter's name.\<close>

definition example_fnu :: "nat \<Rightarrow> string \<Rightarrow> error + real" where
  "example_fnu sed flt = Inr (real (sed + length flt))"

definition example_parameters :: "pyvalue dict list" where
  "example_parameters =
     [[(''imf'', Num 0), (''metallicity'', Num (1/50))],
      [(''filters'', Lst [Str ''B'', Str ''V'']), (''E_BV'', Num (3/10))]]"

definition example_modules :: "string list" where
  "example_modules = [''bc03'', ''dustatt'']"


section \<open>The warehouse cache\<close>

text \<open>
  Modelled from the spec: the class \<open>SedWarehouse\<close> (\<open>pcigale/warehouse\<close>, which
  \<open>savefluxes.py\<close> imports) is not among the sources. Section 4.4 of the specification
  describes it as a cache that maps a cache key, the ordered prefix of the pipeline's
  stages applied so far, to the SED state immediately after that prefix has been applied.
  A stage (a module with its parameters) is a value of the type \<open>'d\<close>, a SED state a value
  of the type \<open>'s\<close>. Beside the cache the warehouse holds, for counting, the keys for which
  it invoked a module's \<open>process\<close>, in the order of the invocations.
\<close>

record ('d, 's) warehouse =
  cache :: "'d list \<rightharpoonup> 's"
  invocations :: "'d list list"

definition empty_warehouse :: "('d, 's) warehouse" where
  "empty_warehouse = \<lparr>cache = Map.empty, invocations = []\<rparr>"

text \<open>
  Modelled from the spec: \<open>get_or_build(pipeline)\<close> walks the pipeline stage by stage. At
  each stage it forms the cache key for the prefix ending at that stage. If that key is in
  the cache, it reuses the stored snapshot and advances to the next stage without calling
  the module's \<open>process\<close>. If it is absent, it takes the previous stage's snapshot (a fresh
  SED at stage 0), advances it by invoking the module's \<open>process\<close>, stores the result
  under the new key, and continues. It returns the SED after the last stage. The
  arguments \<open>key\<close> and \<open>sed\<close> of \<open>build_stages\<close> are the prefix applied so far and the SED
  after it; \<open>process stage sed\<close> is the SED that the module of the stage makes of \<open>sed\<close>.
\<close>

fun build_stages ::
  "('d \<Rightarrow> 's \<Rightarrow> 's) \<Rightarrow> 'd list \<Rightarrow> 's \<Rightarrow> 'd list \<Rightarrow> ('d, 's) warehouse
     \<Rightarrow> 's \<times> ('d, 's) warehouse" where
  "build_stages process key sed [] w = (sed, w)"
| "build_stages process key sed (stage # stages) w =
     (case cache w (key @ [stage]) of
        Some snapshot \<Rightarrow> build_stages process (key @ [stage]) snapshot stages w
      | None \<Rightarrow>
          build_stages process (key @ [stage]) (process stage sed) stages
            (w\<lparr>cache := (cache w)(key @ [stage] \<mapsto> process stage sed),
               invocations := invocations w @ [key @ [stage]]\<rparr>))"

definition get_or_build ::
  "('d \<Rightarrow> 's \<Rightarrow> 's) \<Rightarrow> 's \<Rightarrow> 'd list \<Rightarrow> ('d, 's) warehouse \<Rightarrow> 's \<times> ('d, 's) warehouse" where
  "get_or_build process fresh pipeline w = build_stages process [] fresh pipeline w"

text \<open>
  A sequence of requests to one warehouse with no invalidation between them: the SEDs
  returned, in the order of the requests, and the warehouse at the end.
\<close>

fun requests ::
  "('d \<Rightarrow> 's \<Rightarrow> 's) \<Rightarrow> 's \<Rightarrow> 'd list list \<Rightarrow> ('d, 's) warehouse
     \<Rightarrow> 's list \<times> ('d, 's) warehouse" where
  "requests process fresh [] w = ([], w)"
| "requests process fresh (pipeline # pipelines) w =
     (case get_or_build process fresh pipeline w of
        (sed, w1) \<Rightarrow>
          (case requests process fresh pipelines w1 of
             (seds, w2) \<Rightarrow> (sed # seds, w2)))"

text \<open>
  Instrumented modules for the examples: a SED state is the list of the stages applied to
  it, the last one first.
\<close>

definition recording_process :: "string \<Rightarrow> string list \<Rightarrow> string list" where
  "recording_process stage sed = stage # sed"









chapter \<open>Properties\<close>

section \<open>Properties of parameter resolution\<close>

lemma sublist_join:
  "k \<in> set ks \<Longrightarrow> sublist k (join sep ks)"
proof (induction sep ks rule: join.induct)
  case (1 sep)
  then show ?case by simp
next
  case (2 sep x)
  then show ?case by simp
next
  case (3 sep x y ys)
  show ?case
  proof (cases "k = x")
    case True
    then show ?thesis by (simp add: sublist_appendI [of x "[]", simplified])
  next
    case False
    with 3 have "sublist k (join sep (y # ys))" by simp
    then obtain ps ss where "join sep (y # ys) = ps @ k @ ss"
      by (auto simp: sublist_def)
    then have "join sep (x # y # ys) = (x @ sep @ ps) @ k @ ss" by simp
    then show ?thesis unfolding sublist_def by blast
  qed
qed

lemma keys_update:
  "set (keys (AList.update k v d)) = insert k (set (keys d))"
  by (simp add: keys_def update_keys image_iff) (induction d; auto)

lemma map_of_fill_defaults:
  "distinct (keys parameter_list) \<Longrightarrow>
   map_of (fill_defaults parameter_list given) k =
     (case map_of given k of
        Some v \<Rightarrow> Some v
      | None \<Rightarrow> (case map_of parameter_list k of
                   Some (ty, descr, Some dflt) \<Rightarrow> Some dflt
                 | _ \<Rightarrow> None))"
proof (induction parameter_list given rule: fill_defaults.induct)
  case (1 given)
  then show ?case by (simp split: option.splits)
next
  case (2 key entry rest given)
  obtain ty descr dflt where entry: "entry = (ty, descr, dflt)"
    by (cases entry) auto
  from 2 have d: "distinct (keys rest)" and nk: "key \<notin> set (keys rest)"
    by (simp_all add: keys_def)
  from nk have none: "map_of rest key = None"
    by (simp add: keys_def map_of_eq_None_iff)
  have in_keys: "\<And>g. (key \<in> set (keys g)) = (map_of g key \<noteq> None)"
    by (simp add: keys_def map_of_eq_None_iff)
  show ?case
    using "2.IH" [OF d] none in_keys [of given]
    by (auto simp: entry update_conv' split: option.splits)
qed

lemma check_parameters_ok:
  "set (keys given) = set (keys parameter_list) \<Longrightarrow>
   check_parameters stop given parameter_list = Inr given"
  by (simp add: check_parameters_def)

lemma sublist_embed:
  assumes "sublist k m"
  shows "sublist k (a @ m @ b)"
proof -
  from assms obtain ps ss where "m = ps @ k @ ss"
    by (auto simp: sublist_def)
  then have "a @ m @ b = (a @ ps) @ k @ (ss @ b)" by simp
  then show ?thesis unfolding sublist_def by blast
qed

lemma mismatch_message_missing:
  assumes "k \<in> set missing"
  shows "sublist k (mismatch_message stop missing unexpected)"
proof -
  from assms have ne: "missing \<noteq> []" by auto
  define u where "u = (if unexpected \<noteq> []
        then ''Unexpected parameters: '' @ join '', '' unexpected @ ''.'' else [])"
  have "mismatch_message stop missing unexpected =
     (''The parameters passed are different from the expected one.'' @ ''Missing parameters: '')
       @ join '', '' missing @ (stop @ u)"
    using ne by (simp add: mismatch_message_def u_def)
  moreover have "sublist k (join '', '' missing)" using assms by (rule sublist_join)
  ultimately show ?thesis by (simp only: sublist_embed)
qed

lemma mismatch_message_unexpected:
  assumes "k \<in> set unexpected"
  shows "sublist k (mismatch_message stop missing unexpected)"
proof -
  from assms have ne: "unexpected \<noteq> []" by auto
  define m where "m = ''The parameters passed are different from the expected one.''
     @ (if missing \<noteq> [] then ''Missing parameters: '' @ join '', '' missing @ stop else [])"
  have "mismatch_message stop missing unexpected =
     (m @ ''Unexpected parameters: '') @ join '', '' unexpected @ ''.''"
    using ne by (simp add: mismatch_message_def m_def)
  moreover have "sublist k (join '', '' unexpected)" using assms by (rule sublist_join)
  ultimately show ?thesis by (simp only: sublist_embed)
qed

lemma check_parameters_fails:
  assumes "set (keys given) \<noteq> set (keys parameter_list)"
  shows "\<exists>msg. check_parameters stop given parameter_list = Inl (KeyError msg)
           \<and> (\<forall>k \<in> set (keys parameter_list) - set (keys given). sublist k msg)
           \<and> (\<forall>k \<in> set (keys given) - set (keys parameter_list). sublist k msg)"
proof -
  let ?mi = "missing_parameters given parameter_list"
  let ?un = "unexpected_parameters given parameter_list"
  let ?msg = "mismatch_message stop ?mi ?un"
  have res: "check_parameters stop given parameter_list = Inl (KeyError ?msg)"
    using assms by (simp add: check_parameters_def)
  have mi: "sublist k ?msg" if "k \<in> set (keys parameter_list) - set (keys given)" for k
  proof -
    from that have "k \<in> set ?mi" by (simp add: missing_parameters_def)
    then show ?thesis by (rule mismatch_message_missing)
  qed
  have un: "sublist k ?msg" if "k \<in> set (keys given) - set (keys parameter_list)" for k
  proof -
    from that have "k \<in> set ?un" by (simp add: unexpected_parameters_def)
    then show ?thesis by (rule mismatch_message_unexpected)
  qed
  from res mi un show ?thesis by blast
qed

lemma update_absent:
  "k \<notin> set (keys d) \<Longrightarrow> AList.update k v d = d @ [(k, v)]"
  by (induction d) (auto simp: keys_def)

text \<open>
  The loop that fills in the defaults in closed form: the given entries stay as they are
  and, in the order of the schema, every parameter that is not given and has a default
  is appended with its default.
\<close>

lemma fill_defaults_eq:
  "distinct (keys parameter_list) \<Longrightarrow>
   fill_defaults parameter_list given =
     given @ map (\<lambda>(k, ty, descr, dflt). (k, the dflt))
               (filter (\<lambda>(k, ty, descr, dflt). k \<notin> set (keys given) \<and> dflt \<noteq> None)
                  parameter_list)"
proof (induction parameter_list arbitrary: given)
  case Nil
  then show ?case by simp
next
  case (Cons entry rest)
  obtain key ty descr dflt where entry: "entry = (key, ty, descr, dflt)"
    by (cases entry) auto
  from Cons.prems have d: "distinct (keys rest)" and nk: "key \<notin> set (keys rest)"
    by (simp_all add: keys_def entry)
  show ?case
  proof (cases "key \<notin> set (keys given) \<and> dflt \<noteq> None")
    case False
    then have "fill_defaults (entry # rest) given = fill_defaults rest given"
      by (auto simp: entry split: option.splits)
    with False Cons.IH [OF d, of given] show ?thesis
      by (auto simp: entry)
  next
    case True
    then obtain v where v: "dflt = Some v" by auto
    let ?given = "given @ [(key, v)]"
    from True v have f: "fill_defaults (entry # rest) given = fill_defaults rest ?given"
      by (simp add: entry update_absent)
    have same: "filter (\<lambda>(k, ty, descr, dflt). k \<notin> set (keys ?given) \<and> dflt \<noteq> None) rest
              = filter (\<lambda>(k, ty, descr, dflt). k \<notin> set (keys given) \<and> dflt \<noteq> None) rest"
    proof (rule filter_cong [OF refl])
      fix x assume x: "x \<in> set rest"
      obtain k t ds df where xe: "x = (k, t, ds, df)" by (cases x) auto
      from x xe nk have "k \<noteq> key" by (force simp: keys_def)
      then show "(case x of (k, ty, descr, dflt) \<Rightarrow> k \<notin> set (keys ?given) \<and> dflt \<noteq> None)
               = (case x of (k, ty, descr, dflt) \<Rightarrow> k \<notin> set (keys given) \<and> dflt \<noteq> None)"
        by (simp add: xe keys_def)
    qed
    from Cons.IH [OF d, of ?given] f same True v show ?thesis
      by (simp add: entry)
  qed
qed

text \<open>
  The keys the check reports, in terms of what the caller gave: missing are the schema's
  parameters that are not given and have no default, unexpected are the given parameters
  that the schema does not have.
\<close>

lemma missing_parameters_filled:
  assumes "distinct (keys parameter_list)"
  shows "missing_parameters (fill_defaults parameter_list given) parameter_list =
           map fst (filter (\<lambda>(k, ty, descr, dflt). k \<notin> set (keys given) \<and> dflt = None)
                      parameter_list)"
proof -
  let ?added = "filter (\<lambda>(k, ty, descr, dflt). k \<notin> set (keys given) \<and> dflt \<noteq> None)
                  parameter_list"
  have k: "set (keys (fill_defaults parameter_list given))
             = set (keys given) \<union> fst ` set ?added"
    unfolding fill_defaults_eq [OF assms] by (force simp: keys_def)
  have "filter (\<lambda>k. k \<notin> set (keys (fill_defaults parameter_list given)))
          (map fst parameter_list)
        = map fst (filter (\<lambda>(k, ty, descr, dflt). k \<notin> set (keys given) \<and> dflt = None)
                     parameter_list)"
    unfolding filter_map comp_def
  proof (rule arg_cong [where f = "map fst"], rule filter_cong [OF refl])
    fix x assume x: "x \<in> set parameter_list"
    obtain key ty descr dflt where xe: "x = (key, ty, descr, dflt)" by (cases x) auto
    have uniq: "dflt' = dflt" if "(key, ty', descr', dflt') \<in> set parameter_list"
      for ty' descr' dflt'
      using assms x that unfolding xe keys_def
      by (metis Pair_inject eq_key_imp_eq_value)
    have "key \<in> fst ` set ?added \<longleftrightarrow> key \<notin> set (keys given) \<and> dflt \<noteq> None"
    proof
      assume "key \<in> fst ` set ?added"
      then obtain ty' descr' dflt' where
        "(key, ty', descr', dflt') \<in> set parameter_list" "key \<notin> set (keys given)"
        "dflt' \<noteq> None"
        by force
      with uniq show "key \<notin> set (keys given) \<and> dflt \<noteq> None" by blast
    next
      assume "key \<notin> set (keys given) \<and> dflt \<noteq> None"
      with x xe show "key \<in> fst ` set ?added" by force
    qed
    then show "(fst x \<notin> set (keys (fill_defaults parameter_list given)))
             = (case x of (k, ty, descr, dflt) \<Rightarrow> k \<notin> set (keys given) \<and> dflt = None)"
      unfolding k by (auto simp: xe)
  qed
  then show ?thesis by (simp add: missing_parameters_def keys_def)
qed

lemma unexpected_parameters_filled:
  assumes "distinct (keys parameter_list)"
  shows "unexpected_parameters (fill_defaults parameter_list given) parameter_list =
           filter (\<lambda>k. k \<notin> set (keys parameter_list)) (keys given)"
proof -
  let ?added = "filter (\<lambda>(k, ty, descr, dflt). k \<notin> set (keys given) \<and> dflt \<noteq> None)
                  parameter_list"
  have "filter (\<lambda>k. k \<notin> set (keys parameter_list)) (map fst ?added) = []"
    by (auto simp: filter_empty_conv keys_def)
  then show ?thesis
    unfolding unexpected_parameters_def fill_defaults_eq [OF assms]
    by (simp add: keys_def case_prod_beta comp_def)
qed

lemma keys_differ_iff:
  "set (keys given) \<noteq> set (keys parameter_list) \<longleftrightarrow>
     missing_parameters given parameter_list \<noteq> []
     \<or> unexpected_parameters given parameter_list \<noteq> []"
  by (auto simp: missing_parameters_def unexpected_parameters_def filter_empty_conv)

text \<open>
  Claim C1. For every parameter schema (a dictionary, so its keys are distinct) and every
  caller-supplied parameter set, both copies of the resolution code behave as follows.
  First the supplied entries are kept and every schema parameter that is not supplied and
  has a default is added with its default. Then, when no schema parameter is left without
  a value and no supplied parameter is foreign to the schema, the filled dictionary is the
  result (\<open>complete_parameters\<close> returns it, \<open>AnalysisModule.process\<close> hands it to
  \<open>_process\<close>). Otherwise resolution fails with a \<open>KeyError\<close> whose message is the fixed
  sentence, followed by \<open>Missing parameters:\<close> and exactly the schema parameters that are
  neither supplied nor have a default when there are any, followed by
  \<open>Unexpected parameters:\<close> and exactly the supplied parameters that the schema does not
  have when there are any. (The source joins Python sets, whose order is not specified;
  the keys are listed here in the order of the dictionary they come from.)
\<close>

theorem complete_parameters_resolution:
  fixes parameter_list :: "'v schema" and given :: "'v dict"
    and process' :: "'v dict \<Rightarrow> error + 'r"
  defines "missing \<equiv>
             map fst (filter (\<lambda>(k, ty, descr, dflt). k \<notin> set (keys given) \<and> dflt = None)
                        parameter_list)"
    and "unexpected \<equiv> filter (\<lambda>k. k \<notin> set (keys parameter_list)) (keys given)"
    and "filled \<equiv>
           given @ map (\<lambda>(k, ty, descr, dflt). (k, the dflt))
                     (filter (\<lambda>(k, ty, descr, dflt). k \<notin> set (keys given) \<and> dflt \<noteq> None)
                        parameter_list)"
  assumes "distinct (keys parameter_list)"
  shows "(missing = [] \<and> unexpected = [] \<longrightarrow>
            complete_parameters given parameter_list = Inr filled
          \<and> AnalysisModule_process parameter_list process' given = process' filled)
       \<and> (missing \<noteq> [] \<or> unexpected \<noteq> [] \<longrightarrow>
            complete_parameters given parameter_list =
              Inl (KeyError
                    (''The parameters passed are different from the expected one.''
                     @ (if missing \<noteq> []
                        then ''Missing parameters: '' @ join '', '' missing @ ''. '' else [])
                     @ (if unexpected \<noteq> []
                        then ''Unexpected parameters: '' @ join '', '' unexpected @ ''.''
                        else [])))
          \<and> AnalysisModule_process parameter_list process' given =
              Inl (KeyError
                    (''The parameters passed are different from the expected one.''
                     @ (if missing \<noteq> []
                        then ''Missing parameters: '' @ join '', '' missing @ ''.'' else [])
                     @ (if unexpected \<noteq> []
                        then ''Unexpected parameters: '' @ join '', '' unexpected @ ''.''
                        else []))))"
proof -
  have f: "fill_defaults parameter_list given = filled"
    unfolding filled_def using assms(4) by (rule fill_defaults_eq)
  have m: "missing_parameters filled parameter_list = missing"
    unfolding f [symmetric] missing_def using assms(4) by (rule missing_parameters_filled)
  have u: "unexpected_parameters filled parameter_list = unexpected"
    unfolding f [symmetric] unexpected_def using assms(4)
    by (rule unexpected_parameters_filled)
  have d: "set (keys filled) \<noteq> set (keys parameter_list) \<longleftrightarrow>
             missing \<noteq> [] \<or> unexpected \<noteq> []"
    using keys_differ_iff [of filled parameter_list] by (simp only: m u)
  have c: "check_parameters stop filled parameter_list =
             (if missing \<noteq> [] \<or> unexpected \<noteq> []
              then Inl (KeyError (mismatch_message stop missing unexpected))
              else Inr filled)" for stop
    unfolding check_parameters_def by (simp only: d m u)
  have mm: "mismatch_message stop missing unexpected =
              ''The parameters passed are different from the expected one.''
              @ (if missing \<noteq> []
                 then ''Missing parameters: '' @ join '', '' missing @ stop else [])
              @ (if unexpected \<noteq> []
                 then ''Unexpected parameters: '' @ join '', '' unexpected @ ''.''
                 else [])" for stop
    by (rule mismatch_message_def)
  have ok: "complete_parameters given parameter_list = Inr filled
          \<and> AnalysisModule_process parameter_list process' given = process' filled"
    if "missing = [] \<and> unexpected = []"
    using that
    by (simp only: complete_parameters_def AnalysisModule_process_def f c
          simp_thms if_False sum.case)
  have bad: "complete_parameters given parameter_list =
               Inl (KeyError (mismatch_message ''. '' missing unexpected))
          \<and> AnalysisModule_process parameter_list process' given =
               Inl (KeyError (mismatch_message ''.'' missing unexpected))"
    if "missing \<noteq> [] \<or> unexpected \<noteq> []"
    using that
    by (simp only: complete_parameters_def AnalysisModule_process_def f c
          simp_thms if_True sum.case)
  show ?thesis
    using ok bad unfolding mm by blast
qed

text \<open>
  The theorem at the three inputs of the specification's example: with \<open>{b: 5}\<close> the
  default of \<open>a\<close> is filled in and the resolved dictionary is returned; \<open>{a: 2, b: 5, c: 9}\<close>
  fails naming the unexpected parameter \<open>c\<close> and nothing else; \<open>{a: 2}\<close> fails naming the
  missing parameter \<open>b\<close> and nothing else.
\<close>

theorem complete_parameters_resolution_witness:
  "distinct (keys example_schema)
   \<and> complete_parameters [(''b'', 5)] example_schema = Inr [(''b'', 5), (''a'', 1)]
   \<and> AnalysisModule_process example_schema Inr [(''b'', 5)] = Inr [(''b'', 5), (''a'', 1)]
   \<and> complete_parameters [(''a'', 2), (''b'', 5), (''c'', 9)] example_schema =
       Inl (KeyError (''The parameters passed are different from the expected one.''
                      @ ''Unexpected parameters: c.''))
   \<and> complete_parameters [(''a'', 2)] example_schema =
       Inl (KeyError (''The parameters passed are different from the expected one.''
                      @ ''Missing parameters: b. ''))
   \<and> AnalysisModule_process example_schema Inr [(''a'', 2)] =
       Inl (KeyError (''The parameters passed are different from the expected one.''
                      @ ''Missing parameters: b.''))"
proof -
  have d: "distinct (keys example_schema)"
    by (simp add: example_schema_def keys_def)
  note t1 = complete_parameters_resolution
    [OF d, where given = "[(''b'', 5)]" and process' = Inr]
  note t2 = complete_parameters_resolution
    [OF d, where given = "[(''a'', 2), (''b'', 5), (''c'', 9)]" and process' = Inr]
  note t3 = complete_parameters_resolution
    [OF d, where given = "[(''a'', 2)]" and process' = Inr]
  have c1: "complete_parameters [(''b'', 5)] example_schema = Inr [(''b'', 5), (''a'', 1)]
     \<and> AnalysisModule_process example_schema Inr [(''b'', 5)] = Inr [(''b'', 5), (''a'', 1)]"
    using t1 by (simp add: example_schema_def keys_def)
  have c2: "complete_parameters [(''a'', 2), (''b'', 5), (''c'', 9)] example_schema =
       Inl (KeyError (''The parameters passed are different from the expected one.''
                      @ ''Unexpected parameters: c.''))"
    using t2 by (simp add: example_schema_def keys_def)
  have c3: "complete_parameters [(''a'', 2)] example_schema =
       Inl (KeyError (''The parameters passed are different from the expected one.''
                      @ ''Missing parameters: b. ''))
     \<and> AnalysisModule_process example_schema Inr [(''a'', 2)] =
       Inl (KeyError (''The parameters passed are different from the expected one.''
                      @ ''Missing parameters: b.''))"
    using t3 by (simp add: example_schema_def keys_def)
  from d c1 c2 c3 show ?thesis by blast
qed

section \<open>Properties of the module lookup\<close>

lemma split_first:
  "\<exists>rest. split sep s = takeWhile (\<lambda>c. c \<noteq> sep) s # rest"
proof (induction s)
  case Nil
  then show ?case by simp
next
  case (Cons c cs)
  then obtain rest where "split sep cs = takeWhile (\<lambda>c. c \<noteq> sep) cs # rest" by blast
  then show ?case by simp
qed

text \<open>
  Claim C10 as stated does not hold for a name whose part before the first dot is not a
  name of the language: \<open>my-module.1\<close> matches no module, and the call raises the
  \<open>SyntaxError\<close> of the import statement without printing anything.
\<close>

theorem get_module_syntax_counterexample:
  "get_module example_exec int_truthy ''my-module.1'' []
     = (Inl (SyntaxError ''invalid syntax''), [])"
  by (simp add: get_module_def example_exec_def keys_def)

lemma call_Module_name:
  "call_Module truthy cls name kwargs = Inr inst \<Longrightarrow> inst_name inst = Some name"
  by (auto simp: call_Module_def SEDCreationModule_init_def
      split: if_splits sum.splits option.splits)

lemma get_module_cases:
  assumes "''name'' \<notin> set (keys kwargs)"
    and "split CHR ''.'' name = m # rest"
  shows "get_module exec_import truthy name kwargs =
           (case (case exec_import (''from . import '' @ m @ '' as module'') of
                    Inl e \<Rightarrow> Inl e
                  | Inr cls \<Rightarrow> call_Module truthy cls name kwargs) of
              Inl (ImportError x) \<Rightarrow>
                (Inl (ImportError x), [''Module '' @ m @ '' does not exists!''])
            | r \<Rightarrow> (r, []))"
  using assms by (simp add: get_module_def)

text \<open>
  Claim C10, amended. For every requested name (and keywords that do not collide with the
  parameter \<open>name\<close>), \<open>get_module\<close> executes the import statement built from the part of the
  name before the first dot and from nothing else of the name. When that statement raises
  \<open>ImportError\<close>, the call prints \<open>Module <part> does not exists!\<close> and raises that
  \<open>ImportError\<close>. When the statement raises another exception, as \<open>SyntaxError\<close> for a part
  that is not a name of the language, the call raises it and prints nothing. When the
  statement imports a module, the instance is built by that module's class from the full
  dotted name and the keywords, and every instance that \<open>get_module\<close> returns carries the
  full dotted name.
\<close>

theorem get_module_uses_prefix:
  assumes "''name'' \<notin> set (keys kwargs)"
  shows "(\<forall>x. exec_import (''from . import '' @ takeWhile (\<lambda>c. c \<noteq> CHR ''.'') name
                            @ '' as module'') = Inl (ImportError x) \<longrightarrow>
            get_module exec_import truthy name kwargs =
              (Inl (ImportError x),
               [''Module '' @ takeWhile (\<lambda>c. c \<noteq> CHR ''.'') name @ '' does not exists!'']))
       \<and> (\<forall>e. exec_import (''from . import '' @ takeWhile (\<lambda>c. c \<noteq> CHR ''.'') name
                            @ '' as module'') = Inl e \<and> \<not> is_ImportError e \<longrightarrow>
            get_module exec_import truthy name kwargs = (Inl e, []))
       \<and> (\<forall>cls. exec_import (''from . import '' @ takeWhile (\<lambda>c. c \<noteq> CHR ''.'') name
                              @ '' as module'') = Inr cls \<longrightarrow>
            fst (get_module exec_import truthy name kwargs)
              = call_Module truthy cls name kwargs)
       \<and> (\<forall>inst. fst (get_module exec_import truthy name kwargs) = Inr inst \<longrightarrow>
            inst_name inst = Some name
          \<and> snd (get_module exec_import truthy name kwargs) = []
          \<and> (\<exists>cls. exec_import (''from . import '' @ takeWhile (\<lambda>c. c \<noteq> CHR ''.'') name
                                  @ '' as module'') = Inr cls
                 \<and> call_Module truthy cls name kwargs = Inr inst))"
proof -
  let ?m = "takeWhile (\<lambda>c. c \<noteq> CHR ''.'') name"
  define stmt where "stmt = ''from . import '' @ ?m @ '' as module''"
  define line where "line = ''Module '' @ ?m @ '' does not exists!''"
  obtain rest where sp: "split CHR ''.'' name = ?m # rest"
    using split_first by blast
  have g: "get_module exec_import truthy name kwargs =
           (case (case exec_import stmt of
                    Inl e \<Rightarrow> Inl e
                  | Inr cls \<Rightarrow> call_Module truthy cls name kwargs) of
              Inl (ImportError x) \<Rightarrow> (Inl (ImportError x), [line])
            | r \<Rightarrow> (r, []))"
    unfolding stmt_def line_def by (rule get_module_cases [OF assms sp])
  have c1: "get_module exec_import truthy name kwargs = (Inl (ImportError x), [line])"
    if "exec_import stmt = Inl (ImportError x)" for x
    unfolding g using that by simp
  have c2: "get_module exec_import truthy name kwargs = (Inl e, [])"
    if "exec_import stmt = Inl e \<and> \<not> is_ImportError e" for e
    unfolding g using that by (cases e) simp_all
  have c3: "fst (get_module exec_import truthy name kwargs)
              = call_Module truthy cls name kwargs"
    if "exec_import stmt = Inr cls" for cls
    unfolding g using that by (simp split: sum.splits error.splits)
  have c4: "inst_name inst = Some name
          \<and> snd (get_module exec_import truthy name kwargs) = []
          \<and> (\<exists>cls. exec_import stmt = Inr cls
                 \<and> call_Module truthy cls name kwargs = Inr inst)"
    if r: "fst (get_module exec_import truthy name kwargs) = Inr inst" for inst
  proof (cases "exec_import stmt")
    case (Inl e)
    with r show ?thesis unfolding g by (cases e) simp_all
  next
    case (Inr cls)
    with c3 r have i: "call_Module truthy cls name kwargs = Inr inst" by simp
    then have "inst_name inst = Some name" by (rule call_Module_name)
    moreover have "snd (get_module exec_import truthy name kwargs) = []"
      unfolding g by (simp add: Inr i)
    ultimately show ?thesis using Inr i by blast
  qed
  from c1 c2 c3 c4 show ?thesis
    unfolding stmt_def line_def by blast
qed

text \<open>
  The theorem at the docstring's example and its neighbours: \<open>dh2002.1\<close> loads the module
  \<open>dh2002\<close> and the instance is named \<open>dh2002.1\<close>, also when it is built blank; \<open>nosuch.1\<close>
  finds no module \<open>nosuch\<close>.
\<close>

theorem get_module_uses_prefix_witness:
  "''name'' \<notin> set (keys ([] :: int dict))
   \<and> ''name'' \<notin> set (keys [(''blank'', 1 :: int)])
   \<and> takeWhile (\<lambda>c. c \<noteq> CHR ''.'') ''dh2002.1'' = ''dh2002''
   \<and> get_module example_exec int_truthy ''dh2002.1'' [] =
       (Inr \<lparr>inst_name = Some ''dh2002.1'', inst_parameters = Some [(''alpha'', 2)]\<rparr>, [])
   \<and> get_module example_exec int_truthy ''dh2002.1'' [(''blank'', 1)] =
       (Inr \<lparr>inst_name = Some ''dh2002.1'', inst_parameters = None\<rparr>, [])
   \<and> get_module example_exec int_truthy ''nosuch.1'' [] =
       (Inl (ImportError ''cannot import name nosuch''), [''Module nosuch does not exists!''])"
proof -
  have n1: "''name'' \<notin> set (keys ([] :: int dict))"
    and n2: "''name'' \<notin> set (keys [(''blank'', 1 :: int)])"
    by (simp_all add: keys_def)
  have t1: "takeWhile (\<lambda>c. c \<noteq> CHR ''.'') ''dh2002.1'' = ''dh2002''" by simp
  have t2: "takeWhile (\<lambda>c. c \<noteq> CHR ''.'') ''nosuch.1'' = ''nosuch''" by simp
  have e1: "example_exec (''from . import '' @ ''dh2002'' @ '' as module'') = Inr dh2002_class"
    by (simp add: example_exec_def)
  have e2: "example_exec (''from . import '' @ ''nosuch'' @ '' as module'')
              = Inl (ImportError ''cannot import name nosuch'')"
    by (simp add: example_exec_def)
  have i1: "call_Module int_truthy dh2002_class ''dh2002.1'' [] =
       Inr \<lparr>inst_name = Some ''dh2002.1'', inst_parameters = Some [(''alpha'', 2)]\<rparr>"
    by code_simp
  have i2: "call_Module int_truthy dh2002_class ''dh2002.1'' [(''blank'', 1)] =
       Inr \<lparr>inst_name = Some ''dh2002.1'', inst_parameters = None\<rparr>"
    by code_simp
  note a = get_module_uses_prefix [OF n1, of example_exec "''dh2002.1''" int_truthy,
      unfolded t1]
  note b = get_module_uses_prefix [OF n2, of example_exec "''dh2002.1''" int_truthy,
      unfolded t1]
  note c = get_module_uses_prefix [OF n1, of example_exec "''nosuch.1''" int_truthy,
      unfolded t2]
  note a3 = a [THEN conjunct2, THEN conjunct2, THEN conjunct1, rule_format, OF e1]
  note a4 = a [THEN conjunct2, THEN conjunct2, THEN conjunct2, rule_format]
  note b3 = b [THEN conjunct2, THEN conjunct2, THEN conjunct1, rule_format, OF e1]
  note b4 = b [THEN conjunct2, THEN conjunct2, THEN conjunct2, rule_format]
  have fa: "fst (get_module example_exec int_truthy ''dh2002.1'' []) =
       Inr \<lparr>inst_name = Some ''dh2002.1'', inst_parameters = Some [(''alpha'', 2)]\<rparr>"
    by (simp only: a3 i1)
  have sa: "snd (get_module example_exec int_truthy ''dh2002.1'' []) = []"
    by (rule a4 [OF fa, THEN conjunct2, THEN conjunct1])
  have fb: "fst (get_module example_exec int_truthy ''dh2002.1'' [(''blank'', 1)])
       = Inr \<lparr>inst_name = Some ''dh2002.1'', inst_parameters = None\<rparr>"
    by (simp only: b3 i2)
  have sb: "snd (get_module example_exec int_truthy ''dh2002.1'' [(''blank'', 1)]) = []"
    by (rule b4 [OF fb, THEN conjunct2, THEN conjunct1])
  have n: "get_module example_exec int_truthy ''nosuch.1'' [] =
       (Inl (ImportError ''cannot import name nosuch''),
        [''Module '' @ ''nosuch'' @ '' does not exists!''])"
    by (rule c [THEN conjunct1, rule_format, OF e2])
  have l: "''Module '' @ ''nosuch'' @ '' does not exists!'' = ''Module nosuch does not exists!''"
    by simp
  have ga: "get_module example_exec int_truthy ''dh2002.1'' [] =
       (Inr \<lparr>inst_name = Some ''dh2002.1'', inst_parameters = Some [(''alpha'', 2)]\<rparr>, [])"
    by (rule prod_eqI) (simp_all only: fa sa fst_conv snd_conv)
  have gb: "get_module example_exec int_truthy ''dh2002.1'' [(''blank'', 1)] =
       (Inr \<lparr>inst_name = Some ''dh2002.1'', inst_parameters = None\<rparr>, [])"
    by (rule prod_eqI) (simp_all only: fb sb fst_conv snd_conv)
  show ?thesis
    by (intro conjI) (rule n1 n2 t1 ga gb n [unfolded l])+
qed

section \<open>Properties of the error adjustment\<close>

lemma length_masked_assign:
  "length (masked_assign xs ms vs) = length xs"
  by (induction xs ms vs rule: masked_assign.induct) simp_all

lemma length_getmask:
  "length (map fst (filter snd (zip a (map p b)))) = length (filter id (map p b))"
  if "length a = length b"
  using that by (induction a b rule: list_induct2) simp_all

lemma replace_below_tolerance_ok:
  assumes "length flux = length error"
  shows "\<exists>updated. replace_below_tolerance flux error tolerance default_error = Inr updated
           \<and> length updated = length error"
proof -
  define msk where "msk = map (\<lambda>e. e < tolerance) error"
  define sel where "sel = map fst (filter snd (zip flux msk))"
  have g: "np_getmask flux msk = Inr sel"
    using assms by (simp add: np_getmask_def msk_def sel_def)
  have "length sel = length (filter id msk)"
    unfolding sel_def msk_def using assms by (rule length_getmask)
  then have s: "np_setmask error msk (map (\<lambda>f. default_error * f) sel)
                  = Inr (masked_assign error msk (map (\<lambda>f. default_error * f) sel))"
    by (simp add: np_setmask_def msk_def)
  have "replace_below_tolerance flux error tolerance default_error
          = Inr (masked_assign error msk (map (\<lambda>f. default_error * f) sel))"
    unfolding replace_below_tolerance_def msk_def [symmetric]
    by (simp only: g s sum.case)
  then show ?thesis by (simp add: length_masked_assign)
qed

lemma add_systematic_ok:
  assumes "length flux = length error"
  shows "\<exists>result. add_systematic flux error systematic_deviation = Inr result
           \<and> length result = length error"
  using assms by (simp add: add_systematic_def np_add_def)

text \<open>
  When the two arrays have the same length the call succeeds: it allocates the copy and
  the result after the arrays of the caller and returns the second of them.
\<close>

lemma adjust_errors_success:
  assumes len: "length (h ! flux) = length (h ! error)"
    and fl: "flux < length h" and er: "error < length h"
  shows "\<exists>copied result.
           adjust_errors h flux error tolerance default_error systematic_deviation
             = (Inr (Suc (length h)), h @ [copied, result])
           \<and> length result = length (h ! error)"
proof -
  obtain updated where
    u: "replace_below_tolerance (h ! flux) (h ! error) tolerance default_error = Inr updated"
    and lu: "length updated = length (h ! error)"
    using replace_below_tolerance_ok [OF len] by blast
  from lu len have "length (h ! flux) = length updated" by simp
  then obtain result where
    r: "add_systematic (h ! flux) updated systematic_deviation = Inr result"
    and lr: "length result = length updated"
    using add_systematic_ok by blast
  have "adjust_errors h flux error tolerance default_error systematic_deviation
          = (Inr (Suc (length h)), h @ [updated, result])"
    using fl by (simp add: adjust_errors_def len np_copy_def alloc_def nth_append u r)
  with lr lu show ?thesis by auto
qed

lemma adjust_errors_failure:
  assumes "length (h ! flux) \<noteq> length (h ! error)"
  shows "adjust_errors h flux error tolerance default_error systematic_deviation
           = (Inl (ValueError ''The flux and error arrays must have the same length.''), h)"
  using assms by (simp add: adjust_errors_def)

text \<open>
  Claim C9. For all arrays \<open>flux\<close> and \<open>error\<close> of the caller, \<open>adjust_errors\<close> raises
  exactly when their lengths differ, and what it raises then is the \<open>ValueError\<close> of its
  length check. Whether it raises or returns, every array that existed before the call,
  the caller's \<open>error\<close> and \<open>flux\<close> among them, holds the same elements after the call.
  When it returns, the result is a new array (not one of the caller's) of the same length
  as the inputs.
\<close>

theorem adjust_errors_copy:
  assumes "flux < length h" and "error < length h"
  shows "((\<exists>e. fst (adjust_errors h flux error tolerance default_error systematic_deviation)
               = Inl e)
            \<longleftrightarrow> length (h ! flux) \<noteq> length (h ! error))
       \<and> (length (h ! flux) \<noteq> length (h ! error) \<longrightarrow>
            fst (adjust_errors h flux error tolerance default_error systematic_deviation)
              = Inl (ValueError ''The flux and error arrays must have the same length.''))
       \<and> (\<forall>a < length h.
            snd (adjust_errors h flux error tolerance default_error systematic_deviation) ! a
              = h ! a)
       \<and> (\<forall>r. fst (adjust_errors h flux error tolerance default_error systematic_deviation)
                 = Inr r \<longrightarrow>
              length h \<le> r
            \<and> r < length (snd (adjust_errors h flux error tolerance default_error
                                 systematic_deviation))
            \<and> length (snd (adjust_errors h flux error tolerance default_error
                             systematic_deviation) ! r) = length (h ! error)
            \<and> length (snd (adjust_errors h flux error tolerance default_error
                             systematic_deviation) ! r) = length (h ! flux))"
proof (cases "length (h ! flux) = length (h ! error)")
  case True
  from adjust_errors_success [OF True assms]
  obtain copied result where
    eq: "adjust_errors h flux error tolerance default_error systematic_deviation
           = (Inr (Suc (length h)), h @ [copied, result])"
    and lr: "length result = length (h ! error)"
    by blast
  have n: "(h @ [copied, result]) ! Suc (length h) = result"
    by (simp add: nth_append)
  show ?thesis
    unfolding eq using True lr n by (auto simp: nth_append)
next
  case False
  show ?thesis
    unfolding adjust_errors_failure [OF False] using False by simp
qed

text \<open>
  The theorem at two stores: with arrays of equal length the call returns a new array of
  that length and the caller's error array still reads \<open>[0, 3]\<close>; with arrays of lengths 3
  and 2 it raises and the store is as before.
\<close>

theorem adjust_errors_copy_witness:
  "(0::nat) < length example_heap \<and> (1::nat) < length example_heap
   \<and> length (example_heap ! 0) = length (example_heap ! 1)
   \<and> (\<nexists>e. fst (adjust_errors example_heap 0 1 (1/2) (1/10) (1/10)) = Inl e)
   \<and> snd (adjust_errors example_heap 0 1 (1/2) (1/10) (1/10)) ! 1 = [0, 3]
   \<and> length (ragged_heap ! 0) \<noteq> length (ragged_heap ! 1)
   \<and> fst (adjust_errors ragged_heap 0 1 (1/2) (1/10) (1/10))
       = Inl (ValueError ''The flux and error arrays must have the same length.'')
   \<and> snd (adjust_errors ragged_heap 0 1 (1/2) (1/10) (1/10)) ! 1 = [0, 3]"
proof -
  have a: "(0::nat) < length example_heap" "(1::nat) < length example_heap"
    "length (example_heap ! 0) = length (example_heap ! 1)" "example_heap ! 1 = [0, 3]"
    by (simp_all add: example_heap_def)
  have b: "(0::nat) < length ragged_heap" "(1::nat) < length ragged_heap"
    "length (ragged_heap ! 0) \<noteq> length (ragged_heap ! 1)" "ragged_heap ! 1 = [0, 3]"
    by (simp_all add: ragged_heap_def)
  note t1 = adjust_errors_copy [OF a(1) a(2), of "1/2" "1/10" "1/10"]
  note t2 = adjust_errors_copy [OF b(1) b(2), of "1/2" "1/10" "1/10"]
  from t1 a have "\<nexists>e. fst (adjust_errors example_heap 0 1 (1/2) (1/10) (1/10)) = Inl e"
    by simp
  moreover from t1 a have "snd (adjust_errors example_heap 0 1 (1/2) (1/10) (1/10)) ! 1 = [0, 3]"
    by simp
  moreover from t2 b have "fst (adjust_errors ragged_heap 0 1 (1/2) (1/10) (1/10))
       = Inl (ValueError ''The flux and error arrays must have the same length.'')"
    by blast
  moreover from t2 b have "snd (adjust_errors ragged_heap 0 1 (1/2) (1/10) (1/10)) ! 1 = [0, 3]"
    by simp
  ultimately show ?thesis using a b by simp
qed

section \<open>Properties of the completion of the observation table\<close>

text \<open>
  Claim C7 says that an error column that is named in the used column list and absent
  from the observation table is ignored without a failure. The code does otherwise: when
  the filter's error column is in \<open>used_columns\<close> the code adds no default column, and the
  lookup \<open>obs_table[name_err]\<close> that follows raises \<open>KeyError\<close>, which ends the function.
\<close>

theorem complete_obs_table_missing_error_column:
  assumes "name \<in> set (colnames obs_table)"
    and "name @ ''_err'' \<in> set used_columns"
    and "name @ ''_err'' \<notin> set (colnames obs_table)"
  shows "complete_obs_table Column h obs_table used_columns (name # filter_list) tolerance
           default_error systematic_deviation = Inl (KeyError (name @ ''_err''))"
proof -
  from assms(1) have "map_of obs_table name \<noteq> None"
    by (simp add: colnames_def map_of_eq_None_iff)
  then obtain c where "map_of obs_table name = Some c"
    by auto
  then have g: "table_getitem obs_table name = Inr c"
    by (simp add: table_getitem_def)
  from assms(3) have "map_of obs_table (name @ ''_err'') = None"
    by (simp add: colnames_def map_of_eq_None_iff)
  then have e: "table_getitem obs_table (name @ ''_err'') = Inl (KeyError (name @ ''_err''))"
    by (simp add: table_getitem_def)
  have "complete_filter Column h obs_table used_columns name tolerance default_error
          systematic_deviation = Inl (KeyError (name @ ''_err''))"
    unfolding complete_filter_def using assms(1,2) by (simp add: g e)
  then show ?thesis by simp
qed

text \<open>
  The theorem at the table with the single column \<open>f\<close> when the used columns are \<open>f\<close> and
  \<open>f_err\<close>.
\<close>

theorem complete_obs_table_missing_error_column_witness:
  "''f'' \<in> set (colnames example_table)
   \<and> ''f'' @ ''_err'' \<in> set [''f'', ''f_err'']
   \<and> ''f'' @ ''_err'' \<notin> set (colnames example_table)
   \<and> complete_obs_table strict_Column example_heap example_table [''f'', ''f_err''] [''f'']
       (1/2) (1/10) (1/10) = Inl (KeyError ''f_err'')
   \<and> complete_obs_table lenient_Column example_heap example_table [''f'', ''f_err''] [''f'']
       (1/2) (1/10) (1/10) = Inl (KeyError ''f_err'')"
proof -
  have a: "''f'' \<in> set (colnames example_table)"
    and b: "''f'' @ ''_err'' \<in> set [''f'', ''f_err'']"
    and c: "''f'' @ ''_err'' \<notin> set (colnames example_table)"
    by (simp_all add: example_table_def colnames_def)
  from complete_obs_table_missing_error_column [OF a b c, of strict_Column]
    complete_obs_table_missing_error_column [OF a b c, of lenient_Column] a b c
  show ?thesis by simp
qed

text \<open>
  For comparison, when \<open>f_err\<close> is not among the used columns, the table with the columns
  \<open>f\<close> and \<open>g\<close> is completed if the constructor accepts the index: the column \<open>f_err\<close> is
  then added after the last column \<open>g\<close>, not after \<open>f\<close>. With a constructor that refuses the
  keyword the function ends with the constructor's exception.
\<close>

lemma complete_obs_table_adds_column:
  "\<exists>h'. complete_obs_table lenient_Column example_heap two_column_table [''f'', ''g''] [''f'']
           (1/2) (1/10) (1/10)
          = Inr (h', [(''f'', 0), (''g'', 1), (''f_err'', 2)])"
proof -
  have t: "table_len example_heap two_column_table = 2"
    by (simp add: table_len_def two_column_table_def example_heap_def)
  have i: "colnames_index two_column_table ''f'' = Inr 0"
    by (simp add: colnames_index_def two_column_table_def colnames_def)
  let ?h1 = "example_heap @ [[0, 0]]"
  let ?t1 = "[(''f'', 0), (''g'', Suc 0), (''f_err'', 2)]"
  have ad: "add_column example_heap [(''f'', 0), (''g'', Suc 0)] (''f_err'', replicate 2 0) None
              = Inr (?h1, ?t1)"
    by (simp add: add_column_def colnames_def table_len_def
          example_heap_def alloc_def numeral_2_eq_2)
  have g1: "table_getitem ?t1 ''f'' = Inr 0" and g2: "table_getitem ?t1 ''f_err'' = Inr 2"
    by (simp_all add: table_getitem_def)
  have "length (?h1 ! 0) = length (?h1 ! 2)" "0 < length ?h1" "2 < length ?h1"
    by (simp_all add: example_heap_def)
  from adjust_errors_success [OF this, of "1/2" "1/10" "1/10"]
  obtain copied result where
    ae: "adjust_errors ?h1 0 2 (1/2) (1/10) (1/10)
           = (Inr (Suc (length ?h1)), ?h1 @ [copied, result])"
    and lr: "length result = length (?h1 ! 2)"
    by blast
  have n': "(example_heap @ [[0, 0], copied, result]) ! Suc (Suc (length example_heap))
              = result"
    by (simp add: nth_append)
  have st: "table_setitem (example_heap @ [[0, 0], copied, result]) ?t1 ''f_err'' result
              = Inr ((example_heap @ [[0, 0], copied, result])[2 := result], ?t1)"
    using lr unfolding table_setitem_def by (simp add: example_heap_def)
  have "complete_filter lenient_Column example_heap two_column_table [''f'', ''g''] ''f''
          (1/2) (1/10) (1/10)
          = Inr ((?h1 @ [copied, result])[2 := result], ?t1)"
    unfolding complete_filter_def
    by (simp only: t i)
      (simp add: ad g1 g2 ae n' st two_column_table_def colnames_def lenient_Column_def)
  then show ?thesis by simp
qed

lemma complete_obs_table_Column_raises:
  "complete_obs_table strict_Column example_heap two_column_table [''f'', ''g''] [''f'']
     (1/2) (1/10) (1/10)
     = Inl (TypeError ''__init__() got an unexpected keyword argument index'')"
  by (simp add: complete_filter_def colnames_index_def two_column_table_def colnames_def
      strict_Column_def)

section \<open>Properties of the model data providers\<close>

text \<open>
  Claim C6 as stated does not hold of \<open>SimpleDatabase.get\<close>: for the absent key
  \<open>imf=salp\<close> it raises a plain \<open>Exception\<close>, not the lookup error, and it raises the very
  same exception when the entry's file exists and is corrupt.
\<close>

theorem SimpleDatabase_get_absent_counterexample:
  "absent_directory (basename id [(''imf'', ''salp'')] @ ''.pickle'') = None
   \<and> \<not> is_DatabaseLookupError
         (projl (SimpleDatabase_get id id absent_directory [(''imf'', ''salp'')]))
   \<and> SimpleDatabase_get id id absent_directory [(''imf'', ''salp'')]
       = Inl (GenericException
               (''Cannot read model {'' @ [CHR 0x27] @ ''imf'' @ [CHR 0x27] @ '': salp}. ''
                @ ''Either the parameters were passed incorrectly or the ''
                @ ''database has not been built correctly.''))
   \<and> SimpleDatabase_get id id corrupt_directory [(''imf'', ''salp'')]
       = SimpleDatabase_get id id absent_directory [(''imf'', ''salp'')]"
  by (simp add: SimpleDatabase_get_def basename_def dict_repr_def absent_directory_def
        corrupt_directory_def)

lemma sublist_trans:
  assumes "sublist a b" and "sublist b c"
  shows "sublist a c"
proof -
  from assms obtain p s p' s' where "b = p @ a @ s" and "c = p' @ b @ s'"
    by (auto simp: sublist_def)
  then have "c = (p' @ p) @ a @ (s @ s')" by simp
  then show ?thesis unfolding sublist_def by blast
qed

lemma get_themis_absent:
  assumes "\<forall>r \<in> set models. \<not> (t_qhac r = qhac \<and> t_umin r = umin \<and> t_umax r = umax
                                   \<and> t_alpha r = alpha)"
  shows "\<exists>msg. get_themis fmt models qhac umin umax alpha = Inl (DatabaseLookupError msg)
           \<and> sublist (fmt qhac) msg \<and> sublist (fmt umin) msg
           \<and> sublist (fmt umax) msg \<and> sublist (fmt alpha) msg"
proof -
  define a where "a = ''The THEMIS model for qhac <''"
  define b where "b = ''>, umin <''"
  define c where "c = ''>, umax <''"
  define d where "d = ''>, and alpha <''"
  define e where "e = ''> is not in the database.''"
  define msg where
    "msg = a @ fmt qhac @ b @ fmt umin @ c @ fmt umax @ d @ fmt alpha @ e"
  from assms have "find (\<lambda>r. t_qhac r = qhac \<and> t_umin r = umin \<and> t_umax r = umax
                      \<and> t_alpha r = alpha) models = None"
    by (simp add: find_None_iff)
  then have r: "get_themis fmt models qhac umin umax alpha = Inl (DatabaseLookupError msg)"
    by (simp add: get_themis_def msg_def a_def b_def c_def d_def e_def)
  have "sublist (fmt qhac) msg"
    unfolding msg_def by (rule sublist_appendI)
  moreover have "msg = (a @ fmt qhac @ b) @ fmt umin @ (c @ fmt umax @ d @ fmt alpha @ e)"
    by (simp add: msg_def)
  then have "sublist (fmt umin) msg" by (simp only: sublist_appendI)
  moreover have "msg = (a @ fmt qhac @ b @ fmt umin @ c) @ fmt umax @ (d @ fmt alpha @ e)"
    by (simp add: msg_def)
  then have "sublist (fmt umax) msg" by (simp only: sublist_appendI)
  moreover have "msg = (a @ fmt qhac @ b @ fmt umin @ c @ fmt umax @ d) @ fmt alpha @ e"
    by (simp add: msg_def)
  then have "sublist (fmt alpha) msg" by (simp only: sublist_appendI)
  ultimately show ?thesis using r by blast
qed

lemma get_filter_absent:
  assumes "name \<notin> f_name ` set filters"
  shows "\<exists>msg. get_filter filters name = Inl (DatabaseLookupError msg) \<and> sublist name msg"
proof -
  define a where "a = ''The filter <''"
  define b where "b = ''> is not in the database''"
  from assms have "find (\<lambda>r. f_name r = name) filters = None"
    by (auto simp: find_None_iff)
  then have "get_filter filters name = Inl (DatabaseLookupError (a @ name @ b))"
    by (simp add: get_filter_def a_def b_def)
  moreover have "sublist name (a @ name @ b)" by (rule sublist_appendI)
  ultimately show ?thesis by blast
qed

lemma sublist_dict_repr:
  assumes "(k, v) \<in> set d"
  shows "sublist k (dict_repr repr d)" and "sublist (repr v) (dict_repr repr d)"
proof -
  let ?item = "\<lambda>(k, v). [CHR 0x27] @ k @ [CHR 0x27] @ '': '' @ repr v"
  from assms have "?item (k, v) \<in> set (map ?item d)" by (force simp: image_iff)
  then have j: "sublist (?item (k, v)) (join '', '' (map ?item d))"
    by (rule sublist_join)
  have "dict_repr repr d = ''{'' @ join '', '' (map ?item d) @ ''}''"
    by (simp add: dict_repr_def)
  then have di: "sublist (join '', '' (map ?item d)) (dict_repr repr d)"
    by (simp only: sublist_appendI)
  have "?item (k, v) = [CHR 0x27] @ k @ ([CHR 0x27] @ '': '' @ repr v)" by simp
  then have "sublist k (?item (k, v))" by (simp only: sublist_appendI)
  then show "sublist k (dict_repr repr d)"
    using j di by (blast intro: sublist_trans)
  have "?item (k, v) = ([CHR 0x27] @ k @ [CHR 0x27] @ '': '') @ repr v @ []" by simp
  then have "sublist (repr v) (?item (k, v))" by (simp only: sublist_appendI)
  then show "sublist (repr v) (dict_repr repr d)"
    using j di by (blast intro: sublist_trans)
qed

lemma SimpleDatabase_get_unreadable:
  assumes "files (basename fmt primarykeys @ ''.pickle'') = None
           \<or> files (basename fmt primarykeys @ ''.pickle'') = Some Garbage"
  shows "\<exists>msg. SimpleDatabase_get fmt repr files primarykeys = Inl (GenericException msg)
           \<and> sublist (dict_repr repr primarykeys) msg
           \<and> SimpleDatabase_get fmt repr
                (files(basename fmt primarykeys @ ''.pickle'' \<mapsto> Garbage)) primarykeys
               = Inl (GenericException msg)"
proof -
  define a where "a = ''Cannot read model ''"
  define b where "b = ''. Either the parameters were passed incorrectly or the ''
                 @ ''database has not been built correctly.''"
  from assms
  have "SimpleDatabase_get fmt repr files primarykeys
          = Inl (GenericException (a @ dict_repr repr primarykeys @ b))"
    by (auto simp: SimpleDatabase_get_def a_def b_def)
  moreover
  have "SimpleDatabase_get fmt repr
          (files(basename fmt primarykeys @ ''.pickle'' \<mapsto> Garbage)) primarykeys
          = Inl (GenericException (a @ dict_repr repr primarykeys @ b))"
    by (simp add: SimpleDatabase_get_def a_def b_def)
  moreover have "sublist (dict_repr repr primarykeys) (a @ dict_repr repr primarykeys @ b)"
    by (rule sublist_appendI)
  ultimately show ?thesis by blast
qed

text \<open>
  Claim C6, amended. In the SQL database, \<open>get_themis\<close> and \<open>get_filter\<close> answer a key
  that no row has with \<open>DatabaseLookupError\<close>, and the message contains the requested
  values. In the simple database, \<open>get\<close> answers a key whose file does not exist with a
  plain \<open>Exception\<close>; its message contains every primary key and the text of every value,
  and it is the exception that \<open>get\<close> raises when the file exists and cannot be unpickled.
\<close>

theorem lookup_of_absent_key:
  "((\<forall>r \<in> set models. \<not> (t_qhac r = qhac \<and> t_umin r = umin \<and> t_umax r = umax
                             \<and> t_alpha r = alpha)) \<longrightarrow>
      (\<exists>msg. get_themis fmt models qhac umin umax alpha = Inl (DatabaseLookupError msg)
          \<and> sublist (fmt qhac) msg \<and> sublist (fmt umin) msg
          \<and> sublist (fmt umax) msg \<and> sublist (fmt alpha) msg))
   \<and> (name \<notin> f_name ` set filters \<longrightarrow>
        (\<exists>msg. get_filter filters name = Inl (DatabaseLookupError msg) \<and> sublist name msg))
   \<and> (files (basename fmt' primarykeys @ ''.pickle'') = None \<longrightarrow>
        (\<exists>msg. SimpleDatabase_get fmt' repr files primarykeys = Inl (GenericException msg)
            \<and> (\<forall>(k, v) \<in> set primarykeys. sublist k msg \<and> sublist (repr v) msg)
            \<and> SimpleDatabase_get fmt' repr
                 (files(basename fmt' primarykeys @ ''.pickle'' \<mapsto> Garbage)) primarykeys
                = Inl (GenericException msg)))"
proof (intro conjI impI)
  assume "\<forall>r \<in> set models. \<not> (t_qhac r = qhac \<and> t_umin r = umin \<and> t_umax r = umax
                                 \<and> t_alpha r = alpha)"
  then show "\<exists>msg. get_themis fmt models qhac umin umax alpha = Inl (DatabaseLookupError msg)
          \<and> sublist (fmt qhac) msg \<and> sublist (fmt umin) msg
          \<and> sublist (fmt umax) msg \<and> sublist (fmt alpha) msg"
    by (rule get_themis_absent)
next
  assume "name \<notin> f_name ` set filters"
  then show "\<exists>msg. get_filter filters name = Inl (DatabaseLookupError msg) \<and> sublist name msg"
    by (rule get_filter_absent)
next
  assume "files (basename fmt' primarykeys @ ''.pickle'') = None"
  then have "files (basename fmt' primarykeys @ ''.pickle'') = None
           \<or> files (basename fmt' primarykeys @ ''.pickle'') = Some Garbage"
    by simp
  from SimpleDatabase_get_unreadable
         [where files = files and fmt = fmt' and primarykeys = primarykeys and repr = repr,
          OF this]
  obtain msg where
    g: "SimpleDatabase_get fmt' repr files primarykeys = Inl (GenericException msg)"
    and s: "sublist (dict_repr repr primarykeys) msg"
    and c: "SimpleDatabase_get fmt' repr
              (files(basename fmt' primarykeys @ ''.pickle'' \<mapsto> Garbage)) primarykeys
             = Inl (GenericException msg)"
    by blast
  have "sublist k msg \<and> sublist (repr v) msg" if "(k, v) \<in> set primarykeys" for k v
    using sublist_dict_repr [OF that, of repr] s by (blast intro: sublist_trans)
  then have "\<forall>(k, v) \<in> set primarykeys. sublist k msg \<and> sublist (repr v) msg"
    by auto
  with g c
  show "\<exists>msg. SimpleDatabase_get fmt' repr files primarykeys = Inl (GenericException msg)
            \<and> (\<forall>(k, v) \<in> set primarykeys. sublist k msg \<and> sublist (repr v) msg)
            \<and> SimpleDatabase_get fmt' repr
                 (files(basename fmt' primarykeys @ ''.pickle'' \<mapsto> Garbage)) primarykeys
                = Inl (GenericException msg)"
    by blast
qed

text \<open>
  The theorem at the example tables and the example directory: the model with
  \<open>qhac = 0.28\<close>, the filter \<open>V_B90\<close> and the entry \<open>imf=salp\<close> are absent.
\<close>

theorem lookup_of_absent_key_witness:
  "(\<exists>msg. get_themis id example_models ''0.28'' ''1.0'' ''10.0'' ''2.0''
             = Inl (DatabaseLookupError msg)
        \<and> sublist ''0.28'' msg \<and> sublist ''1.0'' msg \<and> sublist ''10.0'' msg
        \<and> sublist ''2.0'' msg)
   \<and> (\<exists>msg. get_filter example_filters ''V_B90'' = Inl (DatabaseLookupError msg)
          \<and> sublist ''V_B90'' msg)
   \<and> (\<exists>msg. SimpleDatabase_get id id absent_directory [(''imf'', ''salp'')]
               = Inl (GenericException msg)
          \<and> sublist ''imf'' msg \<and> sublist ''salp'' msg
          \<and> SimpleDatabase_get id id corrupt_directory [(''imf'', ''salp'')]
               = Inl (GenericException msg))"
proof -
  have h1: "\<forall>r \<in> set example_models.
              \<not> (t_qhac r = ''0.28'' \<and> t_umin r = ''1.0'' \<and> t_umax r = ''10.0''
                   \<and> t_alpha r = ''2.0'')"
    by (simp add: example_models_def)
  have h2: "''V_B90'' \<notin> f_name ` set example_filters"
    by (simp add: example_filters_def)
  have b: "basename id [(''imf'', ''salp'')] @ ''.pickle'' = ''imf=salp.pickle''"
    by (simp add: basename_def)
  have h3: "absent_directory (basename id [(''imf'', ''salp'')] @ ''.pickle'') = None"
    by (simp add: b absent_directory_def)
  note t = lookup_of_absent_key
    [where models = example_models and qhac = "''0.28''" and umin = "''1.0''"
       and umax = "''10.0''" and alpha = "''2.0''" and fmt = id
       and name = "''V_B90''" and filters = example_filters
       and files = absent_directory and fmt' = id
       and primarykeys = "[(''imf'', ''salp'')]" and repr = id]
  from t h1 have c1: "\<exists>msg. get_themis id example_models ''0.28'' ''1.0'' ''10.0'' ''2.0''
             = Inl (DatabaseLookupError msg)
        \<and> sublist ''0.28'' msg \<and> sublist ''1.0'' msg \<and> sublist ''10.0'' msg
        \<and> sublist ''2.0'' msg"
    by (simp only: id_apply)
  from t h2 have c2: "\<exists>msg. get_filter example_filters ''V_B90'' = Inl (DatabaseLookupError msg)
          \<and> sublist ''V_B90'' msg"
    by blast
  from t h3 have "\<exists>msg. SimpleDatabase_get id id absent_directory [(''imf'', ''salp'')]
                      = Inl (GenericException msg)
            \<and> (\<forall>(k, v) \<in> set [(''imf'', ''salp'')]. sublist k msg \<and> sublist (id v) msg)
            \<and> SimpleDatabase_get id id
                 (absent_directory(basename id [(''imf'', ''salp'')] @ ''.pickle''
                    \<mapsto> Garbage)) [(''imf'', ''salp'')]
                = Inl (GenericException msg)"
    by blast
  then have c3: "\<exists>msg. SimpleDatabase_get id id absent_directory [(''imf'', ''salp'')]
               = Inl (GenericException msg)
          \<and> sublist ''imf'' msg \<and> sublist ''salp'' msg
          \<and> SimpleDatabase_get id id corrupt_directory [(''imf'', ''salp'')]
               = Inl (GenericException msg)"
    unfolding b corrupt_directory_def by simp
  from c1 c2 c3 show ?thesis by blast
qed

section \<open>Properties of the row of a grid point\<close>

lemma str_items_joinable:
  "list_all (\<lambda>item. case item of Str _ \<Rightarrow> True | _ \<Rightarrow> False) items \<Longrightarrow>
   str_items items = Inr (map (\<lambda>item. case item of Str s \<Rightarrow> s | _ \<Rightarrow> []) items)"
  by (induction items rule: str_items.induct) simp_all

lemma str_items_result:
  "str_items items = Inr ss \<Longrightarrow>
   list_all (\<lambda>item. case item of Str _ \<Rightarrow> True | _ \<Rightarrow> False) items
   \<and> ss = map (\<lambda>item. case item of Str s \<Rightarrow> s | _ \<Rightarrow> []) items"
  by (induction items arbitrary: ss rule: str_items.induct) (auto split: sum.splits)

lemma add_values_joinable:
  "list_all joinable vals \<Longrightarrow> add_values vals row = Inr (row @ map joined vals)"
  by (induction vals row rule: add_values.induct) (simp_all add: str_items_joinable)

lemma add_values_result:
  "add_values vals row = Inr row' \<Longrightarrow>
   list_all joinable vals \<and> row' = row @ map joined vals"
proof (induction vals row arbitrary: row' rule: add_values.induct)
  case (2 items vs row)
  from "2.prems" obtain ss where ss: "str_items items = Inr ss"
    by (auto split: sum.splits)
  note j = str_items_result [OF ss]
  from "2.prems" ss have "add_values vs (row @ [Str (join ''.'' ss)]) = Inr row'"
    by simp
  from "2.IH" [OF ss this] j show ?case by simp
qed simp_all

lemma add_parameters_joinable:
  "list_all (\<lambda>module_param. list_all joinable (dict_values module_param)) parameters \<Longrightarrow>
   add_parameters parameters row = Inr (row @ parameter_values parameters)"
  by (induction parameters arbitrary: row)
    (simp_all add: add_values_joinable parameter_values_def)

lemma add_parameters_result:
  "add_parameters parameters row = Inr row' \<Longrightarrow>
   list_all (\<lambda>module_param. list_all joinable (dict_values module_param)) parameters
   \<and> row' = row @ parameter_values parameters"
proof (induction parameters arbitrary: row)
  case Nil
  then show ?case by (simp add: parameter_values_def)
next
  case (Cons module_param parameters)
  from Cons.prems obtain r where r: "add_values (dict_values module_param) row = Inr r"
    and rest: "add_parameters parameters r = Inr row'"
    by (auto split: sum.splits)
  from add_values_result [OF r] Cons.IH [OF rest] show ?case
    by (simp add: parameter_values_def)
qed

lemma length_parameter_values:
  "length (parameter_values parameters) = sum_list (map length parameters)"
  by (simp add: parameter_values_def length_concat comp_def dict_values_def)

lemma compute_fluxes_ok:
  "map (compute_fnu sed) filters = map Inr fluxes \<Longrightarrow>
   compute_fluxes compute_fnu sed filters = Inr (map Num fluxes)"
proof (induction filters arbitrary: fluxes)
  case Nil
  then show ?case by simp
next
  case (Cons flt filters)
  then obtain x xs where "fluxes = x # xs" by (cases fluxes) auto
  with Cons show ?case by simp
qed

lemma compute_fluxes_result:
  "compute_fluxes compute_fnu sed filters = Inr vals \<Longrightarrow>
   \<exists>fluxes. map (compute_fnu sed) filters = map Inr fluxes \<and> vals = map Num fluxes"
proof (induction filters arbitrary: vals)
  case Nil
  then show ?case by simp
next
  case (Cons flt filters)
  from Cons.prems obtain x vs where x: "compute_fnu sed flt = Inr x"
    and vs: "compute_fluxes compute_fnu sed filters = Inr vs" and v: "vals = Num x # vs"
    by (auto split: sum.splits)
  from Cons.IH [OF vs] obtain xs where
    "map (compute_fnu sed) filters = map Inr xs" "vs = map Num xs" by blast
  with x v have "map (compute_fnu sed) (flt # filters) = map Inr (x # xs)
                 \<and> vals = map Num (x # xs)" by simp
  then show ?case by blast
qed

lemma add_keys_eq:
  "add_keys module_name ks cols = cols @ map (\<lambda>key. module_name @ ''.'' @ key) ks"
  by (induction ks arbitrary: cols) simp_all

lemma add_module_columns_eq:
  "add_module_columns mps cols =
     cols @ concat (map (\<lambda>(module_name, module_param).
                          map (\<lambda>key. module_name @ ''.'' @ key) (keys module_param)) mps)"
  by (induction mps arbitrary: cols) (simp_all add: add_keys_eq case_prod_beta)

lemma worker_sed_returns:
  assumes "get_sed warehouse modules parameters = (Inr sed, w1)"
    and "partial_clear_cache w1 changed = (None, w2)"
    and "list_all (\<lambda>module_param. list_all joinable (dict_values module_param)) parameters"
    and "map (compute_fnu sed) filters = map Inr fluxes"
  shows "worker_sed get_sed partial_clear_cache compute_fnu warehouse filters modules
           parameters changed
         = (Inr (parameter_values parameters @ map Num fluxes), w2,
            [Get_sed, Partial_clear_cache changed, Row_parameters, Row_fluxes, Return_row])"
proof -
  have f: "compute_fluxes compute_fnu sed filters = Inr (map Num fluxes)"
    using assms(4) by (rule compute_fluxes_ok)
  from add_parameters_joinable [OF assms(3), of "[]"] f show ?thesis
    by (simp add: worker_sed_def assms(1,2))
qed

lemma worker_sed_row_result:
  assumes "fst (worker_sed get_sed partial_clear_cache compute_fnu warehouse filters modules
                  parameters changed) = Inr row"
  shows "\<exists>sed w1 fluxes.
           get_sed warehouse modules parameters = (Inr sed, w1)
         \<and> map (compute_fnu sed) filters = map Inr fluxes
         \<and> row = parameter_values parameters @ map Num fluxes"
proof -
  obtain r w1 where g: "get_sed warehouse modules parameters = (r, w1)"
    by (cases "get_sed warehouse modules parameters")
  obtain c w2 where p: "partial_clear_cache w1 changed = (c, w2)"
    by (cases "partial_clear_cache w1 changed")
  from assms g obtain sed where r: "r = Inr sed"
    by (cases r) (simp_all add: worker_sed_def)
  from assms g r p have c: "c = None"
    by (cases c) (simp_all add: worker_sed_def)
  from assms g r p c obtain row' where a: "add_parameters parameters [] = Inr row'"
    by (cases "add_parameters parameters []") (simp_all add: worker_sed_def)
  from assms g r p c a obtain vals where f: "compute_fluxes compute_fnu sed filters = Inr vals"
    by (cases "compute_fluxes compute_fnu sed filters") (simp_all add: worker_sed_def)
  from assms g r p c a f have row: "row = row' @ vals"
    by (simp add: worker_sed_def)
  from add_parameters_result [OF a] have row': "row' = parameter_values parameters"
    by simp
  from compute_fluxes_result [OF f] obtain fluxes where
    "map (compute_fnu sed) filters = map Inr fluxes" "vals = map Num fluxes" by blast
  with g r row row' show ?thesis by blast
qed

text \<open>
  Claim C5. Whenever \<open>_worker_sed\<close> emits a row for a grid point, \<open>get_sed\<close> has returned a
  SED, and the row is the grid point's parameter values, module by module in the order of
  the pipeline and within a module in the order of its dictionary, a list given as the
  text of its items joined with dots, followed by the flux of that SED in each requested
  filter, in the order of the filters: the row has one entry per parameter and one per
  filter. A row is emitted whenever the calls on the warehouse return, every list among
  the parameter values consists of texts, and the flux in every filter is computed. The
  column names of the output table are, for every module of the pipeline and every key of
  its parameters in the first grid point, the module name and the key joined with a dot,
  followed by the names of the filters.
\<close>

theorem worker_sed_row:
  "(\<forall>row. fst (worker_sed get_sed partial_clear_cache compute_fnu warehouse filters modules
                  parameters changed) = Inr row \<longrightarrow>
      (\<exists>sed w1 fluxes.
           get_sed warehouse modules parameters = (Inr sed, w1)
         \<and> map (compute_fnu sed) filters = map Inr fluxes
         \<and> row = concat (map (\<lambda>module_param. map joined (dict_values module_param))
                           parameters)
                 @ map Num fluxes
         \<and> length row = sum_list (map length parameters) + length filters))
   \<and> (\<forall>sed w1 w2 fluxes.
         get_sed warehouse modules parameters = (Inr sed, w1)
       \<and> partial_clear_cache w1 changed = (None, w2)
       \<and> list_all (\<lambda>module_param. list_all joinable (dict_values module_param)) parameters
       \<and> map (compute_fnu sed) filters = map Inr fluxes \<longrightarrow>
         fst (worker_sed get_sed partial_clear_cache compute_fnu warehouse filters modules
                parameters changed)
           = Inr (concat (map (\<lambda>module_param. map joined (dict_values module_param))
                            parameters)
                  @ map Num fluxes))
   \<and> out_columns modules (parameters # grid) column_list
       = Inr (concat (map (\<lambda>(module_name, module_param).
                             map (\<lambda>key. module_name @ ''.'' @ key) (keys module_param))
                        (zip modules parameters))
              @ filter_names column_list)"
proof (intro conjI allI impI)
  fix row
  assume "fst (worker_sed get_sed partial_clear_cache compute_fnu warehouse filters modules
                 parameters changed) = Inr row"
  from worker_sed_row_result [OF this] obtain sed w1 fluxes where
    g: "get_sed warehouse modules parameters = (Inr sed, w1)"
    and f: "map (compute_fnu sed) filters = map Inr fluxes"
    and r: "row = parameter_values parameters @ map Num fluxes"
    by blast
  from f have "length filters = length fluxes"
    by (rule map_eq_imp_length_eq)
  with r have "length row = sum_list (map length parameters) + length filters"
    by (simp add: length_parameter_values)
  with g f r
  show "\<exists>sed w1 fluxes.
           get_sed warehouse modules parameters = (Inr sed, w1)
         \<and> map (compute_fnu sed) filters = map Inr fluxes
         \<and> row = concat (map (\<lambda>module_param. map joined (dict_values module_param))
                           parameters)
                 @ map Num fluxes
         \<and> length row = sum_list (map length parameters) + length filters"
    unfolding parameter_values_def by blast
next
  fix sed w1 w2 fluxes
  assume "get_sed warehouse modules parameters = (Inr sed, w1)
       \<and> partial_clear_cache w1 changed = (None, w2)
       \<and> list_all (\<lambda>module_param. list_all joinable (dict_values module_param)) parameters
       \<and> map (compute_fnu sed) filters = map Inr fluxes"
  then have a: "get_sed warehouse modules parameters = (Inr sed, w1)"
    and b: "partial_clear_cache w1 changed = (None, w2)"
    and c: "list_all (\<lambda>module_param. list_all joinable (dict_values module_param)) parameters"
    and d: "map (compute_fnu sed) filters = map Inr fluxes"
    by blast+
  from a b c d
  have "worker_sed get_sed partial_clear_cache compute_fnu warehouse filters modules
           parameters changed
         = (Inr (parameter_values parameters @ map Num fluxes), w2,
            [Get_sed, Partial_clear_cache changed, Row_parameters, Row_fluxes, Return_row])"
    by (rule worker_sed_returns)
  then show "fst (worker_sed get_sed partial_clear_cache compute_fnu warehouse filters
                    modules parameters changed)
           = Inr (concat (map (\<lambda>module_param. map joined (dict_values module_param))
                            parameters)
                  @ map Num fluxes)"
    by (simp add: parameter_values_def)
next
  show "out_columns modules (parameters # grid) column_list
           = Inr (concat (map (\<lambda>(module_name, module_param).
                                 map (\<lambda>key. module_name @ ''.'' @ key) (keys module_param))
                            (zip modules parameters))
                  @ filter_names column_list)"
    by (simp add: out_columns_def add_module_columns_eq)
qed

text \<open>
  The theorem at a pipeline of two modules with four parameters, one of them a list, and
  the filter \<open>V\<close>.
\<close>

theorem worker_sed_row_witness:
  "counting_get_sed 0 example_modules example_parameters = (Inr 2, 1)
   \<and> counting_clear 1 1 = (None, 1)
   \<and> list_all (\<lambda>module_param. list_all joinable (dict_values module_param))
        example_parameters
   \<and> map (example_fnu 2) [''V''] = map Inr [3]
   \<and> fst (worker_sed counting_get_sed counting_clear example_fnu 0 [''V''] example_modules
            example_parameters 1)
       = Inr [Num 0, Num (1/50), Str ''B.V'', Num (3/10), Num 3]
   \<and> out_columns example_modules [example_parameters] [''V'', ''V_err'']
       = Inr [''bc03.imf'', ''bc03.metallicity'', ''dustatt.filters'', ''dustatt.E_BV'', ''V'']"
proof -
  have g: "counting_get_sed 0 example_modules example_parameters = (Inr 2, 1)"
    by (simp add: counting_get_sed_def example_modules_def)
  have p: "counting_clear 1 1 = (None, 1)"
    by (simp add: counting_clear_def)
  have j: "list_all (\<lambda>module_param. list_all joinable (dict_values module_param))
             example_parameters"
    by (simp add: example_parameters_def dict_values_def)
  have f: "map (example_fnu 2) [''V''] = map Inr [3]"
    by (simp add: example_fnu_def)
  note t = worker_sed_row [of counting_get_sed counting_clear example_fnu 0 "[''V'']"
      example_modules example_parameters 1 "[]" "[''V'', ''V_err'']"]
  from g p j f have h: "counting_get_sed 0 example_modules example_parameters = (Inr 2, 1)
       \<and> counting_clear 1 1 = (None, 1)
       \<and> list_all (\<lambda>module_param. list_all joinable (dict_values module_param))
            example_parameters
       \<and> map (example_fnu 2) [''V''] = map Inr [3]"
    by (intro conjI)
  note r0 = t [THEN conjunct2, THEN conjunct1, rule_format, OF h]
  have v: "concat (map (\<lambda>module_param. map joined (dict_values module_param))
                     example_parameters) @ map Num [3]
           = [Num 0, Num (1/50), Str ''B.V'', Num (3/10), Num 3]"
    by (simp add: example_parameters_def dict_values_def)
  have r: "fst (worker_sed counting_get_sed counting_clear example_fnu 0 [''V'']
                  example_modules example_parameters 1)
       = Inr [Num 0, Num (1/50), Str ''B.V'', Num (3/10), Num 3]"
    by (simp only: r0 v)
  note c0 = t [THEN conjunct2, THEN conjunct2]
  have k: "concat (map (\<lambda>(module_name, module_param).
                          map (\<lambda>key. module_name @ ''.'' @ key) (keys module_param))
                     (zip example_modules example_parameters))
             @ filter_names [''V'', ''V_err'']
           = [''bc03.imf'', ''bc03.metallicity'', ''dustatt.filters'', ''dustatt.E_BV'', ''V'']"
    by (simp add: example_parameters_def example_modules_def keys_def filter_names_def
          suffix_to_prefix)
  have c: "out_columns example_modules [example_parameters] [''V'', ''V_err'']
       = Inr [''bc03.imf'', ''bc03.metallicity'', ''dustatt.filters'', ''dustatt.E_BV'', ''V'']"
    by (simp only: c0 k)
  show ?thesis
    by (intro conjI) (rule g p j f r c)+
qed

section \<open>Properties of the order of the statements of a worker\<close>








section \<open>Properties of the warehouse cache\<close>

lemma build_stages_cache_le:
  "build_stages process key sed stages w = (s, w') \<Longrightarrow> cache w \<subseteq>\<^sub>m cache w'"
proof (induction stages arbitrary: key sed w)
  case Nil
  then show ?case by simp
next
  case (Cons stage stages)
  show ?case
  proof (cases "cache w (key @ [stage])")
    case (Some snapshot)
    with Cons.prems have "build_stages process (key @ [stage]) snapshot stages w = (s, w')"
      by simp
    then show ?thesis by (rule Cons.IH)
  next
    case None
    let ?w1 = "w\<lparr>cache := (cache w)(key @ [stage] \<mapsto> process stage sed),
                  invocations := invocations w @ [key @ [stage]]\<rparr>"
    from Cons.prems None
    have "build_stages process (key @ [stage]) (process stage sed) stages ?w1 = (s, w')"
      by simp
    then have "cache ?w1 \<subseteq>\<^sub>m cache w'" by (rule Cons.IH)
    moreover from None have "cache w \<subseteq>\<^sub>m cache ?w1"
      by (auto simp: map_le_def)
    ultimately show ?thesis by (rule map_le_trans [rotated])
  qed
qed

lemma map_le_Some:
  "m \<subseteq>\<^sub>m m' \<Longrightarrow> m k = Some v \<Longrightarrow> m' k = Some v"
  by (metis domI map_le_def)

lemma build_stages_again:
  "build_stages process key sed stages w = (s, w') \<Longrightarrow>
   build_stages process key sed stages w' = (s, w')"
proof (induction stages arbitrary: key sed w)
  case Nil
  then show ?case by simp
next
  case (Cons stage stages)
  show ?case
  proof (cases "cache w (key @ [stage])")
    case (Some snapshot)
    with Cons.prems
    have b: "build_stages process (key @ [stage]) snapshot stages w = (s, w')"
      by simp
    from build_stages_cache_le [OF b] Some have "cache w' (key @ [stage]) = Some snapshot"
      by (rule map_le_Some)
    with Cons.IH [OF b] show ?thesis by simp
  next
    case None
    let ?w1 = "w\<lparr>cache := (cache w)(key @ [stage] \<mapsto> process stage sed),
                  invocations := invocations w @ [key @ [stage]]\<rparr>"
    from Cons.prems None
    have b: "build_stages process (key @ [stage]) (process stage sed) stages ?w1 = (s, w')"
      by simp
    have "cache ?w1 (key @ [stage]) = Some (process stage sed)" by simp
    with build_stages_cache_le [OF b]
    have "cache w' (key @ [stage]) = Some (process stage sed)"
      by (rule map_le_Some)
    with Cons.IH [OF b] show ?thesis by simp
  qed
qed

lemma build_stages_invocations:
  "build_stages process key sed stages w = (s, w') \<Longrightarrow>
   \<exists>new. invocations w' = invocations w @ new \<and> distinct new
         \<and> set new \<inter> dom (cache w) = {}
         \<and> dom (cache w') = dom (cache w) \<union> set new"
proof (induction stages arbitrary: key sed w)
  case Nil
  then show ?case by simp
next
  case (Cons stage stages)
  show ?case
  proof (cases "cache w (key @ [stage])")
    case (Some snapshot)
    with Cons.prems have "build_stages process (key @ [stage]) snapshot stages w = (s, w')"
      by simp
    then show ?thesis by (rule Cons.IH)
  next
    case None
    let ?k = "key @ [stage]"
    let ?w1 = "w\<lparr>cache := (cache w)(?k \<mapsto> process stage sed),
                  invocations := invocations w @ [?k]\<rparr>"
    from Cons.prems None
    have "build_stages process ?k (process stage sed) stages ?w1 = (s, w')"
      by simp
    from Cons.IH [OF this] obtain new where
      i: "invocations w' = invocations ?w1 @ new" and d: "distinct new"
      and n: "set new \<inter> dom (cache ?w1) = {}"
      and c: "dom (cache w') = dom (cache ?w1) \<union> set new"
      by blast
    from n have k: "?k \<notin> set new" and n': "set new \<inter> dom (cache w) = {}"
      by auto
    from None have k': "?k \<notin> dom (cache w)" by (simp add: domIff)
    have "invocations w' = invocations w @ (?k # new)" using i by simp
    moreover have "distinct (?k # new)" using d k by simp
    moreover have "set (?k # new) \<inter> dom (cache w) = {}" using n' k' by simp
    moreover have "dom (cache w') = dom (cache w) \<union> set (?k # new)" using c by simp
    ultimately show ?thesis by blast
  qed
qed

lemma requests_invocations:
  "\<exists>new. invocations (snd (requests process fresh pipelines w)) = invocations w @ new
         \<and> distinct new
         \<and> set new \<inter> dom (cache w) = {}
         \<and> dom (cache (snd (requests process fresh pipelines w))) = dom (cache w) \<union> set new"
proof (induction pipelines arbitrary: w)
  case Nil
  then show ?case by simp
next
  case (Cons pipeline pipelines)
  obtain sed w1 where g: "get_or_build process fresh pipeline w = (sed, w1)"
    by (cases "get_or_build process fresh pipeline w")
  then have "build_stages process [] fresh pipeline w = (sed, w1)"
    by (simp add: get_or_build_def)
  from build_stages_invocations [OF this] obtain new1 where
    i1: "invocations w1 = invocations w @ new1" and d1: "distinct new1"
    and n1: "set new1 \<inter> dom (cache w) = {}"
    and c1: "dom (cache w1) = dom (cache w) \<union> set new1"
    by blast
  from Cons.IH [of w1] obtain new2 where
    i2: "invocations (snd (requests process fresh pipelines w1)) = invocations w1 @ new2"
    and d2: "distinct new2"
    and n2: "set new2 \<inter> dom (cache w1) = {}"
    and c2: "dom (cache (snd (requests process fresh pipelines w1)))
               = dom (cache w1) \<union> set new2"
    by blast
  have r: "snd (requests process fresh (pipeline # pipelines) w)
             = snd (requests process fresh pipelines w1)"
    by (simp add: g case_prod_beta)
  have "invocations (snd (requests process fresh (pipeline # pipelines) w))
          = invocations w @ (new1 @ new2)"
    using r i1 i2 by simp
  moreover have "distinct (new1 @ new2)"
    using d1 d2 n2 c1 by auto
  moreover have "set (new1 @ new2) \<inter> dom (cache w) = {}"
    using n1 n2 c1 by auto
  moreover have "dom (cache (snd (requests process fresh (pipeline # pipelines) w)))
                   = dom (cache w) \<union> set (new1 @ new2)"
    using r c1 c2 by auto
  ultimately show ?case by blast
qed

text \<open>
  Claim C2. For every pipeline and every state of the warehouse, requesting the pipeline
  again from the warehouse that the first request left returns the same SED and leaves
  that warehouse as it is, its list of invocations included: the second request invokes
  no \<open>process\<close>. For every sequence of requests with no invalidation between them, the
  invocations made during the sequence are for pairwise distinct keys, none of which was
  in the cache before: \<open>process\<close> is invoked at most once per distinct key.
\<close>

theorem get_or_build_idempotent:
  "get_or_build process fresh pipeline (snd (get_or_build process fresh pipeline w))
     = get_or_build process fresh pipeline w
   \<and> fst (get_or_build process fresh pipeline
            (snd (get_or_build process fresh pipeline w)))
       = fst (get_or_build process fresh pipeline w)
   \<and> invocations (snd (get_or_build process fresh pipeline
                          (snd (get_or_build process fresh pipeline w))))
       = invocations (snd (get_or_build process fresh pipeline w))
   \<and> (\<exists>new. invocations (snd (requests process fresh pipelines w)) = invocations w @ new
            \<and> distinct new
            \<and> set new \<inter> dom (cache w) = {})"
proof -
  obtain sed w' where g: "get_or_build process fresh pipeline w = (sed, w')"
    by (cases "get_or_build process fresh pipeline w")
  then have b0: "build_stages process [] fresh pipeline w = (sed, w')"
    by (simp add: get_or_build_def)
  then have b1: "build_stages process [] fresh pipeline w' = (sed, w')"
    by (rule build_stages_again)
  have a: "get_or_build process fresh pipeline
             (snd (get_or_build process fresh pipeline w))
           = get_or_build process fresh pipeline w"
    by (simp add: get_or_build_def b0 b1)
  from requests_invocations [of process fresh pipelines w]
  have b: "\<exists>new. invocations (snd (requests process fresh pipelines w)) = invocations w @ new
            \<and> distinct new
            \<and> set new \<inter> dom (cache w) = {}"
    by blast
  from a b show ?thesis by simp
qed

text \<open>
  The scenario of section 8 of the specification on one warehouse: the six grid points of
  a pipeline whose first stage takes the values \<open>X1\<close> and \<open>X2\<close> and whose second stage takes
  the values \<open>Y1\<close>, \<open>Y2\<close> and \<open>Y3\<close>, each requested twice. The first stage is computed twice,
  once for each of its values, and every grid point once.
\<close>

lemma requests_example:
  "invocations (snd (requests recording_process []
      [[''X1'', ''Y1''], [''X1'', ''Y1''], [''X1'', ''Y2''], [''X1'', ''Y2''],
       [''X1'', ''Y3''], [''X1'', ''Y3''], [''X2'', ''Y1''], [''X2'', ''Y1''],
       [''X2'', ''Y2''], [''X2'', ''Y2''], [''X2'', ''Y3''], [''X2'', ''Y3'']]
      empty_warehouse))
   = [[''X1''], [''X1'', ''Y1''], [''X1'', ''Y2''], [''X1'', ''Y3''],
      [''X2''], [''X2'', ''Y1''], [''X2'', ''Y2''], [''X2'', ''Y3'']]
   \<and> fst (requests recording_process [] [[''X1'', ''Y1''], [''X1'', ''Y1'']] empty_warehouse)
       = [[''Y1'', ''X1''], [''Y1'', ''X1'']]"
  by (simp add: get_or_build_def empty_warehouse_def recording_process_def)

section \<open>Properties of the worker pool\<close>











end
